theory Spec2Isabelle
  imports Main
begin

section \<open>Python values as the inspector observes them\<close>

text \<open>
  The variable inspector (\<^verbatim>\<open>variable_inspector/inspector.py\<close>) receives arbitrary live
  objects and only ever observes them through a fixed set of operations: the runtime type's
  name and module, \<^verbatim>\<open>isinstance\<close> against built-in types, \<^verbatim>\<open>len\<close>, \<^verbatim>\<open>repr\<close>,
  \<^verbatim>\<open>str\<close>, \<^verbatim>\<open>int\<close>, truth value, attribute access, calling, iteration and
  subscription. An object is therefore modelled by what each of these operations answers,
  every one of which may raise. Exceptions are values of the class \<^verbatim>\<open>Exception\<close>, the
  class the source's handlers catch. Object graphs are finite trees, iterables are finite,
  strings are lists of 8-bit characters, and a type's \<^verbatim>\<open>__module__\<close> is a string.
\<close>

datatype exn = TypeError | ValueError | AttributeError | KeyError | IndexError | OverflowError
  | RuntimeError

type_synonym 'a res = "exn + 'a"

text \<open>The built-in type an object is an instance of, as far as the source's
  \<^verbatim>\<open>isinstance\<close> tests can tell (subclass instances included).\<close>

datatype kind = KInt | KFloat | KComplex | KStr | KBytes | KBool | KNoneType
  | KDict | KList | KTuple | KSet | KFrozenset
  | KFunction | KBuiltinFunction | KType | KModule | KObject

text \<open>What \<^verbatim>\<open>__repr__\<close> or \<^verbatim>\<open>__str__\<close> does: raise, return something that is not a
  string, or return a string.\<close>

datatype str_ret = Raises exn | NonStr | Str string

text \<open>
  \<^item> \<open>kind\<close>: the built-in base type; \<open>abc_mapping\<close>: whether the object's class is a
    \<^verbatim>\<open>collections.abc.Mapping\<close> (inherited or registered) without being a \<^verbatim>\<open>dict\<close>;
  \<^item> \<open>tname\<close>, \<open>tmodule\<close>: \<^verbatim>\<open>type(obj).__name__\<close> and \<^verbatim>\<open>type(obj).__module__\<close>;
  \<^item> \<open>dunder_len\<close>: \<open>None\<close> when the type has no \<^verbatim>\<open>__len__\<close>, else what it does;
  \<^item> \<open>dunder_str\<close>: \<open>None\<close> when \<^verbatim>\<open>__str__\<close> is the inherited one, which calls
    \<^verbatim>\<open>repr\<close>;
  \<^item> \<open>dunder_bool\<close>: \<open>None\<close> when the type has no \<^verbatim>\<open>__bool__\<close>;
  \<^item> \<open>dunder_int\<close>: the object's integer value, used by \<^verbatim>\<open>int(obj)\<close> and by the
    comparison of a count with \<^verbatim>\<open>max_items\<close>;
  \<^item> \<open>attrs\<close>: the attributes by name, each a value or an exception; a name that is not
    listed raises \<^verbatim>\<open>AttributeError\<close>;
  \<^item> \<open>dunder_call\<close>: \<open>None\<close> when the object is not callable, else the result of the
    call (every callable the source calls is called at one place, with fixed arguments);
  \<^item> \<open>dunder_iter\<close>: \<^verbatim>\<open>iter(obj)\<close> raises, or the items the iteration yields and
    the exception that ends it, if one does;
  \<^item> \<open>item_at\<close>: \<^verbatim>\<open>obj[i]\<close> for the integer positions \<open>0, 1, ...\<close>; past the end
    it raises;
  \<^item> \<open>item_of\<close>: \<^verbatim>\<open>obj[k]\<close> for an object key; a key that is not listed raises.
\<close>

datatype pyobj = PyObj
  (kind: kind)
  (abc_mapping: bool)
  (tname: string)
  (tmodule: string)
  (dunder_len: "int res option")
  (dunder_repr: str_ret)
  (dunder_str: "str_ret option")
  (dunder_bool: "bool res option")
  (dunder_int: "int res")
  (attrs: "(string \<times> pyobj res) list")
  (dunder_call: "pyobj res option")
  (dunder_iter: "(pyobj list \<times> exn option) res")
  (item_at: "pyobj res list")
  (item_of: "(pyobj \<times> pyobj res) list")

subsection \<open>The built-in operations\<close>

text \<open>\<^verbatim>\<open>sys.maxsize\<close>, the largest container size and index (a 64-bit CPython).\<close>

definition sys_maxsize :: int where
  "sys_maxsize = 2 ^ 63 - 1"

text \<open>\<^verbatim>\<open>len(obj)\<close>: a \<^verbatim>\<open>__len__\<close> that returns a negative number makes \<^verbatim>\<open>len\<close>
  raise \<^verbatim>\<open>ValueError\<close>, one that returns more than \<^verbatim>\<open>sys.maxsize\<close> makes it raise
  \<^verbatim>\<open>OverflowError\<close>.\<close>

definition py_len :: "pyobj \<Rightarrow> int res" where
  "py_len obj =
     (case dunder_len obj of
        None \<Rightarrow> Inl TypeError
      | Some (Inl e) \<Rightarrow> Inl e
      | Some (Inr n) \<Rightarrow>
          if n < 0 then Inl ValueError
          else if n > sys_maxsize then Inl OverflowError
          else Inr n)"

fun str_result :: "str_ret \<Rightarrow> string res" where
  "str_result (Raises e) = Inl e"
| "str_result NonStr = Inl TypeError"
| "str_result (Str s) = Inr s"

definition py_repr :: "pyobj \<Rightarrow> string res" where
  "py_repr obj = str_result (dunder_repr obj)"

definition py_str :: "pyobj \<Rightarrow> string res" where
  "py_str obj = (case dunder_str obj of None \<Rightarrow> py_repr obj | Some r \<Rightarrow> str_result r)"

definition py_int :: "pyobj \<Rightarrow> int res" where
  "py_int obj = dunder_int obj"

text \<open>\<^verbatim>\<open>obj > m\<close> for an integer \<open>m\<close>.\<close>

definition py_gt :: "pyobj \<Rightarrow> int \<Rightarrow> bool res" where
  "py_gt obj m = (case dunder_int obj of Inl e \<Rightarrow> Inl e | Inr v \<Rightarrow> Inr (v > m))"

text \<open>Truth value: \<^verbatim>\<open>__bool__\<close> when defined, else \<^verbatim>\<open>len(obj) != 0\<close> when
  \<^verbatim>\<open>__len__\<close> is defined, else true.\<close>

definition py_truthy :: "pyobj \<Rightarrow> bool res" where
  "py_truthy obj =
     (case dunder_bool obj of
        Some r \<Rightarrow> r
      | None \<Rightarrow>
          (case dunder_len obj of
             None \<Rightarrow> Inr True
           | Some _ \<Rightarrow> (case py_len obj of Inl e \<Rightarrow> Inl e | Inr n \<Rightarrow> Inr (n \<noteq> 0))))"

definition is_none :: "pyobj \<Rightarrow> bool" where
  "is_none obj = (kind obj = KNoneType)"

definition py_getattr :: "pyobj \<Rightarrow> string \<Rightarrow> pyobj res" where
  "py_getattr obj name = (case map_of (attrs obj) name of None \<Rightarrow> Inl AttributeError | Some r \<Rightarrow> r)"

definition py_call :: "pyobj \<Rightarrow> pyobj res" where
  "py_call f = (case dunder_call f of None \<Rightarrow> Inl TypeError | Some r \<Rightarrow> r)"

text \<open>\<^verbatim>\<open>obj.name()\<close>.\<close>

definition py_call_method :: "pyobj \<Rightarrow> string \<Rightarrow> pyobj res" where
  "py_call_method obj name = (case py_getattr obj name of Inl e \<Rightarrow> Inl e | Inr f \<Rightarrow> py_call f)"

definition py_getitem_int :: "pyobj \<Rightarrow> nat \<Rightarrow> pyobj res" where
  "py_getitem_int obj i = (if i < length (item_at obj) then item_at obj ! i else Inl IndexError)"

definition py_getitem :: "pyobj \<Rightarrow> pyobj \<Rightarrow> pyobj res" where
  "py_getitem obj k = (case map_of (item_of obj) k of None \<Rightarrow> Inl KeyError | Some r \<Rightarrow> r)"

text \<open>
  An iteration is the list of items it yields and the exception that ends it, if any; an
  iteration that cannot start yields nothing and ends with the exception.
\<close>

type_synonym iteration = "pyobj list \<times> exn option"

definition py_iter :: "pyobj \<Rightarrow> iteration" where
  "py_iter obj = (case dunder_iter obj of Inl e \<Rightarrow> ([], Some e) | Inr p \<Rightarrow> p)"

text \<open>\<^verbatim>\<open>itertools.islice(obj, n)\<close>: an \<open>n\<close> that is negative or above
  \<^verbatim>\<open>sys.maxsize\<close> is refused; after \<open>n\<close> items the underlying iterator is not asked
  again.\<close>

definition py_islice :: "pyobj \<Rightarrow> int \<Rightarrow> iteration" where
  "py_islice obj n =
     (if n < 0 \<or> n > sys_maxsize then ([], Some ValueError)
      else case dunder_iter obj of
             Inl e \<Rightarrow> ([], Some e)
           | Inr (xs, ending) \<Rightarrow>
               if nat n \<le> length xs then (take (nat n) xs, None) else (xs, ending))"

text \<open>\<^verbatim>\<open>list(it)\<close>, \<^verbatim>\<open>tuple(it)\<close>: all items, or the exception.\<close>

definition py_list :: "iteration \<Rightarrow> pyobj list res" where
  "py_list it = (case snd it of None \<Rightarrow> Inr (fst it) | Some e \<Rightarrow> Inl e)"

text \<open>A comprehension \<^verbatim>\<open>[f(x) for x in xs]\<close> whose body may raise.\<close>

fun map_res :: "('a \<Rightarrow> 'b res) \<Rightarrow> 'a list \<Rightarrow> 'b list res" where
  "map_res f [] = Inr []"
| "map_res f (x # xs) =
     (case f x of
        Inl e \<Rightarrow> Inl e
      | Inr y \<Rightarrow> (case map_res f xs of Inl e \<Rightarrow> Inl e | Inr ys \<Rightarrow> Inr (y # ys)))"

text \<open>The same over an iteration: the body runs on the items yielded before the
  iteration's own exception is seen.\<close>

definition map_iter :: "(pyobj \<Rightarrow> 'b res) \<Rightarrow> iteration \<Rightarrow> 'b list res" where
  "map_iter f it =
     (case map_res f (fst it) of
        Inl e \<Rightarrow> Inl e
      | Inr ys \<Rightarrow> (case snd it of None \<Rightarrow> Inr ys | Some e \<Rightarrow> Inl e))"

text \<open>The slice \<^verbatim>\<open>s[:k]\<close>; a negative \<open>k\<close> counts from the end.\<close>

definition py_slice_to :: "'a list \<Rightarrow> int \<Rightarrow> 'a list" where
  "py_slice_to s k = (if 0 \<le> k then take (nat k) s else take (nat (int (length s) + k)) s)"

text \<open>Decimal digits, for an integer inside an f-string.\<close>

definition digit_char :: "nat \<Rightarrow> char" where
  "digit_char d = ''0123456789'' ! d"

fun digits :: "nat \<Rightarrow> string" where
  "digits n = (if n < 10 then [digit_char n] else digits (n div 10) @ [digit_char (n mod 10)])"

declare digits.simps [simp del]

definition str_of_int :: "int \<Rightarrow> string" where
  "str_of_int i = (if i < 0 then CHR ''-'' # digits (nat (- i)) else digits (nat i))"

definition startswith :: "string \<Rightarrow> string \<Rightarrow> bool" where
  "startswith s p = (take (length p) s = p)"

subsection \<open>The objects the source itself supplies as defaults\<close>

definition py_none :: pyobj where
  "py_none = PyObj KNoneType False ''NoneType'' ''builtins'' None (Str ''None'') None
     (Some (Inr False)) (Inl TypeError) [] None (Inl TypeError) [] []"

definition py_empty_tuple :: pyobj where
  "py_empty_tuple = PyObj KTuple False ''tuple'' ''builtins'' (Some (Inr 0)) (Str ''()'') None
     None (Inl TypeError) [] None (Inr ([], None)) [] []"

definition py_empty_list :: pyobj where
  "py_empty_list = PyObj KList False ''list'' ''builtins'' (Some (Inr 0)) (Str ''[]'') None
     None (Inl TypeError) [] None (Inr ([], None)) [] []"

definition py_empty_dict :: pyobj where
  "py_empty_dict = PyObj KDict False ''dict'' ''builtins'' (Some (Inr 0)) (Str ''{}'') None
     None (Inl TypeError) [] None (Inr ([], None)) [] []"

text \<open>The string \<^verbatim>\<open>"?"\<close>; the source only ever applies \<^verbatim>\<open>str\<close> to it or stores it.\<close>

definition py_qmark :: pyobj where
  "py_qmark = PyObj KStr False ''str'' ''builtins'' (Some (Inr 1)) (Str [CHR 0x27, CHR ''?'', CHR 0x27])
     (Some (Str ''?'')) None (Inl ValueError) [] None (Inl TypeError) [] []"

text \<open>A built-in string with the given characters. Its \<^verbatim>\<open>repr\<close> is written for
  a string without quotes or escapes, and its characters are not listed as items (a
  one-character string would have to contain itself); the source applies \<^verbatim>\<open>str\<close> and
  key lookup to names, nothing else.\<close>

definition py_string :: "string \<Rightarrow> pyobj" where
  "py_string s = PyObj KStr False ''str'' ''builtins'' (Some (Inr (int (length s))))
     (Str ([CHR 0x27] @ s @ [CHR 0x27])) (Some (Str s)) None (Inl ValueError) [] None
     (Inl TypeError) [] []"

section \<open>Safety primitives\<close>

text \<open>\<^verbatim>\<open>_safe_attr\<close>: the attribute, or the default when reading it raises.\<close>

definition safe_attr :: "pyobj \<Rightarrow> string \<Rightarrow> pyobj \<Rightarrow> pyobj" where
  "safe_attr obj name dflt = (case py_getattr obj name of Inl e \<Rightarrow> dflt | Inr v \<Rightarrow> v)"

text \<open>\<^verbatim>\<open>_safe_len\<close>: \<^verbatim>\<open>len(obj)\<close>, or \<^verbatim>\<open>None\<close> when it raises.\<close>

definition safe_len :: "pyobj \<Rightarrow> int option" where
  "safe_len obj = (case py_len obj of Inl e \<Rightarrow> None | Inr n \<Rightarrow> Some n)"

text \<open>\<^verbatim>\<open>_truncate_name\<close>: \<^verbatim>\<open>str(name)\<close> is taken first and may raise.\<close>

definition truncate_name :: "pyobj \<Rightarrow> int option \<Rightarrow> string res" where
  "truncate_name name max_len =
     (case max_len of
        None \<Rightarrow> py_str name
      | Some m \<Rightarrow>
          (case py_str name of
             Inl e \<Rightarrow> Inl e
           | Inr s \<Rightarrow> Inr (if int (length s) \<le> m then s else py_slice_to s (m - 3) @ ''...'')))"

definition is_bulk_container :: "pyobj \<Rightarrow> bool" where
  "is_bulk_container obj = (kind obj \<in> {KDict, KList, KTuple, KSet, KFrozenset})"

text \<open>\<^verbatim>\<open>_safe_repr\<close>.\<close>

definition safe_repr :: "pyobj \<Rightarrow> int \<Rightarrow> string" where
  "safe_repr obj limit =
     (let n = (if is_bulk_container obj
               then (case py_len obj of Inl e \<Rightarrow> None | Inr n \<Rightarrow> Some n)
               else None)
      in case (case n of None \<Rightarrow> None | Some n \<Rightarrow> if n > 20 then Some n else None) of
           Some n \<Rightarrow> ''<'' @ tname obj @ '' with '' @ str_of_int n @ '' items>''
         | None \<Rightarrow>
             (case py_repr obj of
                Inl e \<Rightarrow> ''<'' @ tname obj @ ''>''
              | Inr r \<Rightarrow>
                  if int (length r) > limit then py_slice_to r (limit - 3) @ ''...'' else r))"

text \<open>\<^verbatim>\<open>_type_name\<close> and \<^verbatim>\<open>_module\<close>.\<close>

definition type_name :: "pyobj \<Rightarrow> string" where
  "type_name obj = tname obj"

definition module_of :: "pyobj \<Rightarrow> string" where
  "module_of obj = tmodule obj"

section \<open>Inspection records\<close>

text \<open>
  The values an inspection record holds: what the inspector builds itself (\<^verbatim>\<open>None\<close>,
  booleans, integers, strings, lists, string-keyed dictionaries), a dictionary built from
  an object's own key/value pairs, and an object of the inspected program stored as it is.
  A record is a string-keyed dictionary in insertion order.
\<close>

datatype jv = JNone | JBool bool | JInt int | JStr string | JList "jv list"
  | JRec "(string \<times> jv) list" | JMap "(pyobj \<times> pyobj) list" | JRaw pyobj

type_synonym jrec = "(string \<times> jv) list"

text \<open>\<^verbatim>\<open>d[k] = v\<close> on a dictionary kept in insertion order.\<close>

fun setitem :: "'k \<Rightarrow> 'v \<Rightarrow> ('k \<times> 'v) list \<Rightarrow> ('k \<times> 'v) list" where
  "setitem k v [] = [(k, v)]"
| "setitem k v (p # r) = (if fst p = k then (k, v) # r else p # setitem k v r)"

text \<open>Sequencing of steps that may raise.\<close>

definition and_then :: "'a res \<Rightarrow> ('a \<Rightarrow> 'b res) \<Rightarrow> 'b res" where
  "and_then m f = (case m of Inl e \<Rightarrow> Inl e | Inr x \<Rightarrow> f x)"

text \<open>\<^verbatim>\<open>with contextlib.suppress(Exception): r[k] = v\<close>.\<close>

definition set_if_ok :: "string \<Rightarrow> jv res \<Rightarrow> jrec \<Rightarrow> jrec" where
  "set_if_ok k v r = (case v of Inl e \<Rightarrow> r | Inr x \<Rightarrow> setitem k x r)"

text \<open>\<^verbatim>\<open>list(x)\<close> stored in a record: the items as they are.\<close>

definition list_field :: "pyobj \<Rightarrow> jv res" where
  "list_field x = and_then (py_list (py_iter x)) (\<lambda>items. Inr (JList (map JRaw items)))"

text \<open>\<^verbatim>\<open>str(x)\<close> stored in a record.\<close>

definition str_field :: "pyobj \<Rightarrow> jv res" where
  "str_field x = and_then (py_str x) (\<lambda>s. Inr (JStr s))"

text \<open>\<^verbatim>\<open>dict(it)\<close> over an iteration of key/value pairs: every item must itself
  yield exactly two items. (Hashing of the keys is not modelled.)\<close>

definition pair_of :: "pyobj \<Rightarrow> (pyobj \<times> pyobj) res" where
  "pair_of item =
     (case dunder_iter item of
        Inl e \<Rightarrow> Inl TypeError
      | Inr (xs, ending) \<Rightarrow>
          (case ending of
             Some e \<Rightarrow> Inl e
           | None \<Rightarrow> (case xs of [k, v] \<Rightarrow> Inr (k, v) | _ \<Rightarrow> Inl ValueError)))"

definition dict_of_pairs :: "iteration \<Rightarrow> jv res" where
  "dict_of_pairs it =
     and_then (map_iter pair_of it)
       (\<lambda>kvs. Inr (JMap (foldl (\<lambda>d (k, v). setitem k v d) [] kvs)))"

text \<open>\<^verbatim>\<open>zip(a, b)\<close>: both iterators are created first; then items are drawn in turn,
  from \<open>a\<close> first, until one of them ends.\<close>

definition py_zip :: "pyobj \<Rightarrow> pyobj \<Rightarrow> (pyobj \<times> pyobj) list \<times> exn option" where
  "py_zip a b =
     (case dunder_iter a of
        Inl e \<Rightarrow> ([], Some e)
      | Inr (xs, fx) \<Rightarrow>
          (case dunder_iter b of
             Inl e \<Rightarrow> ([], Some e)
           | Inr (ys, fy) \<Rightarrow> (zip xs ys, if length xs \<le> length ys then fx else fy)))"

section \<open>Structured inspectors\<close>

subsection \<open>pandas\<close>

text \<open>The dtype of one column: \<^verbatim>\<open>"?"\<close> unless \<^verbatim>\<open>str(table[c])\<close> succeeds.\<close>

definition column_dtype :: "pyobj \<Rightarrow> pyobj \<Rightarrow> string" where
  "column_dtype table c =
     (if is_none table then ''?''
      else case and_then (py_getitem table c) py_str of Inl e \<Rightarrow> ''?'' | Inr s \<Rightarrow> s)"

definition column_entry :: "pyobj \<Rightarrow> int option \<Rightarrow> pyobj \<Rightarrow> jv res" where
  "column_entry table max_name_length c =
     (let dt = column_dtype table c
      in and_then (truncate_name c max_name_length)
           (\<lambda>nm. Inr (JRec [(''name'', JStr nm), (''dtype'', JStr dt)])))"

text \<open>\<^verbatim>\<open>shape[1] if len(shape) > 1 else len(cols)\<close>: an object of the table's, or a
  number counted here.\<close>

definition total_columns :: "pyobj \<Rightarrow> pyobj list \<Rightarrow> jv res" where
  "total_columns shape cols =
     and_then (py_len shape)
       (\<lambda>n. if n > 1 then and_then (py_getitem_int shape 1) (\<lambda>t. Inr (JRaw t))
            else Inr (JInt (int (length cols))))"

fun count_gt :: "jv \<Rightarrow> int \<Rightarrow> bool res" where
  "count_gt (JInt n) m = Inr (n > m)"
| "count_gt (JRaw t) m = py_gt t m"
| "count_gt _ m = Inl TypeError"

definition index_names_field :: "pyobj \<Rightarrow> jv res" where
  "index_names_field names =
     and_then
       (map_iter (\<lambda>n. if is_none n then Inr JNone else and_then (py_str n) (\<lambda>s. Inr (JStr s)))
          (py_iter names))
       (\<lambda>xs. Inr (JList xs))"

definition add_index_info :: "pyobj \<Rightarrow> jrec \<Rightarrow> jrec res" where
  "add_index_info obj result =
     (let idx = safe_attr obj ''index'' py_none
      in if is_none idx then Inr result
         else and_then (str_field (safe_attr idx ''dtype'' py_qmark))
           (\<lambda>d. let result = setitem ''index_dtype'' d result
                in if type_name idx = ''MultiIndex''
                   then (let result = setitem ''index_type'' (JStr ''MultiIndex'') result;
                             result = setitem ''index_nlevels''
                                        (JRaw (safe_attr idx ''nlevels'' py_none)) result;
                             names = safe_attr idx ''names'' py_none
                         in if is_none names then Inr result
                            else and_then (index_names_field names)
                                   (\<lambda>ns. Inr (setitem ''index_names'' ns result)))
                   else Inr result))"

text \<open>\<^verbatim>\<open>int(obj.memory_usage(deep=False).sum())\<close>.\<close>

definition frame_memory_bytes :: "pyobj \<Rightarrow> jv res" where
  "frame_memory_bytes obj =
     and_then (py_call_method obj ''memory_usage'')
       (\<lambda>u. and_then (py_call_method u ''sum'') (\<lambda>t. and_then (py_int t) (\<lambda>n. Inr (JInt n))))"

text \<open>The part the two eager DataFrame inspectors share: the capped columns with their
  dtypes (looked up in \<^verbatim>\<open>dtypes\<close> or in \<^verbatim>\<open>schema\<close>), the shape, and the total
  when it exceeds \<^verbatim>\<open>max_items\<close>.\<close>

definition frame_fields ::
  "string \<Rightarrow> string \<Rightarrow> string \<Rightarrow> pyobj \<Rightarrow> int \<Rightarrow> int option \<Rightarrow> jrec res" where
  "frame_fields name ty dtypes_attr obj max_items max_name_length =
     (let shape = safe_attr obj ''shape'' py_empty_tuple
      in and_then (py_list (py_islice (safe_attr obj ''columns'' py_empty_list) max_items))
      (\<lambda>cols. let dtypes = safe_attr obj dtypes_attr py_none
        in and_then (map_res (column_entry dtypes max_name_length) cols)
      (\<lambda>col_info. and_then (total_columns shape cols)
      (\<lambda>total_cols. and_then (list_field shape)
      (\<lambda>shape_list.
         let result = [(''name'', JStr name), (''type'', JStr ty),
                       (''shape'', shape_list), (''columns'', JList col_info)]
         in and_then (count_gt total_cols max_items)
      (\<lambda>more. Inr (if more then setitem ''columns_truncated'' total_cols result
                    else result)))))))"

definition inspect_pandas_dataframe :: "string \<Rightarrow> pyobj \<Rightarrow> int \<Rightarrow> int option \<Rightarrow> jrec res" where
  "inspect_pandas_dataframe name obj max_items max_name_length =
     and_then (frame_fields name ''DataFrame'' ''dtypes'' obj max_items max_name_length)
     (\<lambda>result. and_then (add_index_info obj result)
     (\<lambda>result. Inr (set_if_ok ''memory_bytes'' (frame_memory_bytes obj) result)))"

text \<open>\<^verbatim>\<open>int(obj.memory_usage(deep=False))\<close>.\<close>

definition series_memory_bytes :: "pyobj \<Rightarrow> jv res" where
  "series_memory_bytes obj =
     and_then (py_call_method obj ''memory_usage'') (\<lambda>u. and_then (py_int u) (\<lambda>n. Inr (JInt n)))"

text \<open>The part the two Series inspectors share: shape, dtype and the series' own name.\<close>

definition series_fields :: "string \<Rightarrow> string \<Rightarrow> pyobj \<Rightarrow> jrec res" where
  "series_fields name ty obj =
     and_then (list_field (safe_attr obj ''shape'' py_empty_tuple))
     (\<lambda>shape_list. and_then (str_field (safe_attr obj ''dtype'' py_qmark))
     (\<lambda>dtype.
        let result = [(''name'', JStr name), (''type'', JStr ty),
                      (''shape'', shape_list), (''dtype'', dtype)];
            series_name = safe_attr obj ''name'' py_none
        in if is_none series_name then Inr result
           else and_then (str_field series_name)
                  (\<lambda>sn. Inr (setitem ''series_name'' sn result))))"

definition inspect_pandas_series :: "string \<Rightarrow> pyobj \<Rightarrow> jrec res" where
  "inspect_pandas_series name obj =
     and_then (series_fields name ''Series'' obj)
       (\<lambda>result. Inr (set_if_ok ''memory_bytes'' (series_memory_bytes obj) result))"

subsection \<open>polars\<close>

definition inspect_polars_dataframe :: "string \<Rightarrow> pyobj \<Rightarrow> int \<Rightarrow> int option \<Rightarrow> jrec res" where
  "inspect_polars_dataframe name obj max_items max_name_length =
     and_then (frame_fields name ''polars.DataFrame'' ''schema'' obj max_items max_name_length)
     (\<lambda>result. Inr (set_if_ok ''estimated_size_bytes''
                      (and_then (py_call_method obj ''estimated_size'') (\<lambda>b. Inr (JRaw b)))
                      result))"

text \<open>One column of a lazy frame; a column whose name or dtype cannot be read is left out.\<close>

definition lazy_column_entry :: "pyobj \<Rightarrow> int option \<Rightarrow> pyobj \<Rightarrow> jv res" where
  "lazy_column_entry schema max_name_length n =
     and_then (truncate_name n max_name_length)
       (\<lambda>nm. and_then (and_then (py_getitem schema n) py_str)
          (\<lambda>dt. Inr (JRec [(''name'', JStr nm), (''dtype'', JStr dt)])))"

fun successes :: "'a res list \<Rightarrow> 'a list" where
  "successes [] = []"
| "successes (Inl e # rs) = successes rs"
| "successes (Inr x # rs) = x # successes rs"

text \<open>The body of the \<^verbatim>\<open>try\<close> block of \<^verbatim>\<open>_inspect_polars_lazyframe\<close>.\<close>

definition lazyframe_schema_record :: "string \<Rightarrow> pyobj \<Rightarrow> int \<Rightarrow> int option \<Rightarrow> jrec res" where
  "lazyframe_schema_record name obj max_items max_name_length =
     and_then (py_call_method obj ''collect_schema'')
     (\<lambda>schema. and_then (py_call_method schema ''names'')
     (\<lambda>all_names. and_then (py_list (py_islice all_names max_items))
     (\<lambda>names.
        let col_info = successes (map (lazy_column_entry schema max_name_length) names)
        in and_then (py_len all_names)
     (\<lambda>total.
        let result = [(''name'', JStr name), (''type'', JStr ''polars.LazyFrame''),
                      (''columns'', JList col_info), (''lazy'', JBool True)]
        in Inr (if total > max_items then setitem ''columns_truncated'' (JInt total) result
                else result)))))"

definition inspect_polars_lazyframe :: "string \<Rightarrow> pyobj \<Rightarrow> int \<Rightarrow> int option \<Rightarrow> jrec" where
  "inspect_polars_lazyframe name obj max_items max_name_length =
     (case lazyframe_schema_record name obj max_items max_name_length of
        Inr result \<Rightarrow> result
      | Inl e \<Rightarrow> [(''name'', JStr name), (''type'', JStr ''polars.LazyFrame''),
                 (''lazy'', JBool True)])"

definition inspect_polars_series :: "string \<Rightarrow> pyobj \<Rightarrow> jrec res" where
  "inspect_polars_series name obj = series_fields name ''polars.Series'' obj"

subsection \<open>numpy\<close>

definition inspect_numpy :: "string \<Rightarrow> pyobj \<Rightarrow> jrec res" where
  "inspect_numpy name obj =
     and_then (list_field (safe_attr obj ''shape'' py_empty_tuple))
     (\<lambda>shape_list. and_then (str_field (safe_attr obj ''dtype'' py_qmark))
     (\<lambda>dtype. Inr [(''name'', JStr name), (''type'', JStr ''ndarray''),
                   (''shape'', shape_list), (''dtype'', dtype),
                   (''ndim'', JRaw (safe_attr obj ''ndim'' py_none)),
                   (''nbytes'', JRaw (safe_attr obj ''nbytes'' py_none))]))"

subsection \<open>xarray\<close>

text \<open>\<^verbatim>\<open>dict(islice(sizes.items(), max_items))\<close>.\<close>

definition dims_field :: "pyobj \<Rightarrow> int \<Rightarrow> jv res" where
  "dims_field sizes max_items =
     and_then (py_call_method sizes ''items'') (\<lambda>items. dict_of_pairs (py_islice items max_items))"

text \<open>One entry of \<^verbatim>\<open>data_vars\<close>: the truncated name, and the dtype when the variable
  and its dtype can be read.\<close>

definition data_var_entry :: "pyobj \<Rightarrow> int option \<Rightarrow> pyobj \<Rightarrow> jv res" where
  "data_var_entry data_vars max_name_length var_name =
     and_then (truncate_name var_name max_name_length)
       (\<lambda>nm. let var_info = [(''name'', JStr nm)]
             in Inr (JRec
                  (case py_getitem data_vars var_name of
                     Inl e \<Rightarrow> var_info
                   | Inr var_obj \<Rightarrow>
                       (let dtype = safe_attr var_obj ''dtype'' py_none
                        in if is_none dtype then var_info
                           else set_if_ok ''dtype'' (str_field dtype) var_info))))"

definition data_vars_field :: "pyobj \<Rightarrow> int \<Rightarrow> int option \<Rightarrow> jv res" where
  "data_vars_field data_vars max_items max_name_length =
     and_then (map_iter (data_var_entry data_vars max_name_length) (py_islice data_vars max_items))
       (\<lambda>var_list. Inr (JList var_list))"

text \<open>\<^verbatim>\<open>[_truncate_name(c, max_name_length) for c in islice(it, max_items)]\<close>.\<close>

definition names_field :: "pyobj \<Rightarrow> int \<Rightarrow> int option \<Rightarrow> jv res" where
  "names_field it max_items max_name_length =
     and_then
       (map_iter (\<lambda>c. and_then (truncate_name c max_name_length) (\<lambda>nm. Inr (JStr nm)))
          (py_islice it max_items))
       (\<lambda>xs. Inr (JList xs))"

text \<open>\<^verbatim>\<open>if total is not None and total > max_items: result[key] = total\<close>.\<close>

definition set_truncated :: "string \<Rightarrow> int option \<Rightarrow> int \<Rightarrow> jrec \<Rightarrow> jrec" where
  "set_truncated key tot max_items result =
     (case tot of
        None \<Rightarrow> result
      | Some t \<Rightarrow> if t > max_items then setitem key (JInt t) result else result)"

text \<open>\<^verbatim>\<open>sizes = _safe_attr(owner, "sizes", None)\<close> and the \<^verbatim>\<open>dims\<close> entry made of
  it; the Dataset and the DataTree inspectors have the same block.\<close>

definition add_dims :: "pyobj \<Rightarrow> int \<Rightarrow> jrec \<Rightarrow> jrec res" where
  "add_dims owner max_items result =
     (let sizes = safe_attr owner ''sizes'' py_none
      in if is_none sizes then Inr result
         else and_then (dims_field sizes max_items) (\<lambda>d. Inr (setitem ''dims'' d result)))"

text \<open>The \<^verbatim>\<open>data_vars\<close> block of \<^verbatim>\<open>_inspect_xarray_dataset\<close>, which reports the
  total when it exceeds \<^verbatim>\<open>max_items\<close>.\<close>

definition add_dataset_vars :: "pyobj \<Rightarrow> int \<Rightarrow> int option \<Rightarrow> jrec \<Rightarrow> jrec res" where
  "add_dataset_vars obj max_items max_name_length result =
     (let data_vars = safe_attr obj ''data_vars'' py_none
      in if is_none data_vars then Inr result
         else and_then (data_vars_field data_vars max_items max_name_length)
                (\<lambda>vs. Inr (set_truncated ''data_vars_truncated'' (safe_len data_vars) max_items
                              (setitem ''data_vars'' vs result))))"

definition add_coords :: "pyobj \<Rightarrow> int \<Rightarrow> int option \<Rightarrow> jrec \<Rightarrow> jrec res" where
  "add_coords obj max_items max_name_length result =
     (let coords = safe_attr obj ''coords'' py_none
      in if is_none coords then Inr result
         else and_then (names_field coords max_items max_name_length)
                (\<lambda>cs. Inr (setitem ''coords'' cs result)))"

definition inspect_xarray_dataset :: "string \<Rightarrow> pyobj \<Rightarrow> int \<Rightarrow> int option \<Rightarrow> jrec res" where
  "inspect_xarray_dataset name obj max_items max_name_length =
     and_then (add_dims obj max_items [(''name'', JStr name), (''type'', JStr ''xarray.Dataset'')])
     (\<lambda>result. and_then (add_dataset_vars obj max_items max_name_length result)
     (\<lambda>result. add_coords obj max_items max_name_length result))"

text \<open>\<^verbatim>\<open>{str(d): int(s) for d, s in zip(dims, shape)}\<close>.\<close>

definition dim_sizes_field :: "pyobj \<Rightarrow> pyobj \<Rightarrow> jv res" where
  "dim_sizes_field dims shape =
     (let z = py_zip dims shape
      in and_then
           (map_res (\<lambda>(d, s). and_then (py_str d) (\<lambda>k. and_then (py_int s) (\<lambda>v. Inr (k, JInt v))))
              (fst z))
           (\<lambda>kvs. case snd z of
                    Some e \<Rightarrow> Inl e
                  | None \<Rightarrow> Inr (JRec (foldl (\<lambda>d (k, v). setitem k v d) [] kvs))))"

definition inspect_xarray_dataarray :: "string \<Rightarrow> pyobj \<Rightarrow> jrec res" where
  "inspect_xarray_dataarray name obj =
     (let result = [(''name'', JStr name), (''type'', JStr ''xarray.DataArray'')];
          dims = safe_attr obj ''dims'' py_none;
          shape = safe_attr obj ''shape'' py_none
      in and_then
           (if \<not> is_none dims \<and> \<not> is_none shape
            then and_then (dim_sizes_field dims shape) (\<lambda>d. Inr (setitem ''dims'' d result))
            else Inr result)
      (\<lambda>result.
         let dtype = safe_attr obj ''dtype'' py_none
         in if is_none dtype then Inr result
            else and_then (str_field dtype) (\<lambda>d. Inr (setitem ''dtype'' d result))))"

text \<open>\<^verbatim>\<open>sum(1 for _ in obj.subtree)\<close>.\<close>

definition total_nodes_field :: "pyobj \<Rightarrow> jv res" where
  "total_nodes_field obj =
     and_then (py_getattr obj ''subtree'')
       (\<lambda>st. and_then (py_list (py_iter st)) (\<lambda>nodes. Inr (JInt (int (length nodes)))))"

text \<open>The \<^verbatim>\<open>children\<close> block of \<^verbatim>\<open>_inspect_xarray_datatree\<close>.\<close>

definition add_children :: "pyobj \<Rightarrow> int \<Rightarrow> int option \<Rightarrow> jrec \<Rightarrow> jrec res" where
  "add_children obj max_items max_name_length result =
     (let children = safe_attr obj ''children'' py_empty_dict
      in and_then (py_truthy children)
           (\<lambda>has_children.
              if has_children
              then and_then (py_call_method children ''keys'')
                     (\<lambda>ks. and_then (names_field ks max_items max_name_length)
                        (\<lambda>cs. Inr (set_truncated ''children_truncated'' (safe_len children)
                                      max_items (setitem ''children'' cs result))))
              else Inr result))"

text \<open>The \<^verbatim>\<open>data_vars\<close> block of \<^verbatim>\<open>_inspect_xarray_datatree\<close>, read from the tree's
  dataset. It stores the capped list and nothing else.\<close>

definition add_tree_vars :: "pyobj \<Rightarrow> int \<Rightarrow> int option \<Rightarrow> jrec \<Rightarrow> jrec res" where
  "add_tree_vars ds max_items max_name_length result =
     (let data_vars = safe_attr ds ''data_vars'' py_none
      in if is_none data_vars then Inr result
         else and_then (data_vars_field data_vars max_items max_name_length)
                (\<lambda>vs. Inr (setitem ''data_vars'' vs result)))"

definition add_tree_dataset :: "pyobj \<Rightarrow> int \<Rightarrow> int option \<Rightarrow> jrec \<Rightarrow> jrec res" where
  "add_tree_dataset obj max_items max_name_length result =
     (let ds = safe_attr obj ''dataset'' py_none
      in if is_none ds then Inr result
         else and_then (add_tree_vars ds max_items max_name_length result)
                (\<lambda>result. add_dims ds max_items result))"

definition inspect_xarray_datatree :: "string \<Rightarrow> pyobj \<Rightarrow> int \<Rightarrow> int option \<Rightarrow> jrec res" where
  "inspect_xarray_datatree name obj max_items max_name_length =
     and_then (add_children obj max_items max_name_length
                 [(''name'', JStr name), (''type'', JStr ''xarray.DataTree'')])
     (\<lambda>result. and_then (add_tree_dataset obj max_items max_name_length result)
     (\<lambda>result. Inr (set_if_ok ''total_nodes'' (total_nodes_field obj) result)))"

subsection \<open>Mappings\<close>

text \<open>The \<^verbatim>\<open>repr\<close> of a tuple, from the \<^verbatim>\<open>repr\<close>s of its items.\<close>

fun join_comma :: "string list \<Rightarrow> string" where
  "join_comma [] = []"
| "join_comma [x] = x"
| "join_comma (x # xs) = x @ '', '' @ join_comma xs"

definition tuple_repr :: "string list \<Rightarrow> string" where
  "tuple_repr rs = ''('' @ join_comma rs @ (if length rs = 1 then '','' else []) @ '')''"

text \<open>The inner block of the preview loop: \<^verbatim>\<open>f"{type_name}: {tuple(shape)}"\<close> stored
  under \<^verbatim>\<open>str(k)\<close>.\<close>

definition shape_preview :: "pyobj \<Rightarrow> string \<Rightarrow> pyobj \<Rightarrow> (string \<times> jv) res" where
  "shape_preview k tn shape =
     and_then (py_list (py_iter shape))
       (\<lambda>items. and_then (map_res py_repr items)
          (\<lambda>rs. and_then (py_str k) (\<lambda>ks. Inr (ks, JStr (tn @ '': '' @ tuple_repr rs)))))"

text \<open>One round of the preview loop: the entry it stores, if it stores one.\<close>

definition preview_entry :: "pyobj \<Rightarrow> pyobj \<Rightarrow> (string \<times> jv) option" where
  "preview_entry obj k =
     (case py_getitem obj k of
        Inl e \<Rightarrow> None
      | Inr v \<Rightarrow>
          (let tn = type_name v;
               shape = safe_attr v ''shape'' py_none;
               by_shape = (if is_none shape then None
                           else case shape_preview k tn shape of
                                  Inl e \<Rightarrow> None
                                | Inr kv \<Rightarrow> Some kv)
           in case by_shape of
                Some kv \<Rightarrow> Some kv
              | None \<Rightarrow>
                  (case py_str k of
                     Inl e \<Rightarrow> None
                   | Inr ks \<Rightarrow> Some (ks, JStr (tn @ '': '' @ safe_repr v 80)))))"

definition values_preview :: "pyobj \<Rightarrow> pyobj list \<Rightarrow> jrec" where
  "values_preview obj keys =
     foldl (\<lambda>d k. case preview_entry obj k of None \<Rightarrow> d | Some (ks, p) \<Rightarrow> setitem ks p d) []
       (take (min 5 (length keys)) keys)"

definition inspect_dict :: "string \<Rightarrow> pyobj \<Rightarrow> int \<Rightarrow> int option \<Rightarrow> jrec res" where
  "inspect_dict name obj max_items max_name_length =
     (let n = safe_len obj
      in and_then (py_call_method obj ''keys'')
      (\<lambda>ks. and_then (py_list (py_islice ks max_items))
      (\<lambda>keys.
         let result = [(''name'', JStr name), (''type'', JStr (type_name obj)),
                       (''length'', case n of None \<Rightarrow> JNone | Some n \<Rightarrow> JInt n)]
         in and_then
              (map_res (\<lambda>k. and_then (truncate_name k max_name_length) (\<lambda>nm. Inr (JStr nm))) keys)
      (\<lambda>key_names.
         let result = setitem ''keys'' (JList key_names) result;
             result = set_truncated ''keys_truncated'' n max_items result;
             preview = values_preview obj keys
         in Inr (if preview \<noteq> [] then setitem ''values_preview'' (JRec preview) result
                 else result)))))"

subsection \<open>The generic fallback\<close>

definition known_prefixes :: "string list" where
  "known_prefixes = [''pandas'', ''polars'', ''numpy'', ''xarray'', ''scipy'', ''sklearn'', ''torch'']"

definition generic_type :: "pyobj \<Rightarrow> string" where
  "generic_type obj =
     (case find (startswith (module_of obj)) known_prefixes of
        None \<Rightarrow> type_name obj
      | Some prefix \<Rightarrow> prefix @ ''.'' @ type_name obj)"

definition inspect_generic :: "string \<Rightarrow> pyobj \<Rightarrow> jrec res" where
  "inspect_generic name obj =
     (let result = [(''name'', JStr name), (''type'', JStr (generic_type obj))];
          shape = safe_attr obj ''shape'' py_none;
          result = (if is_none shape then result else set_if_ok ''shape'' (list_field shape) result);
          dtype = safe_attr obj ''dtype'' py_none
      in and_then
           (if is_none dtype then Inr result
            else and_then (str_field dtype) (\<lambda>d. Inr (setitem ''dtype'' d result)))
      (\<lambda>result.
         let result = (case safe_len obj of
                         None \<Rightarrow> result
                       | Some n \<Rightarrow> setitem ''length'' (JInt n) result)
         in Inr (setitem ''repr'' (JStr (safe_repr obj 200)) result)))"

section \<open>The dispatcher\<close>

definition is_scalar :: "pyobj \<Rightarrow> bool" where
  "is_scalar obj = (kind obj \<in> {KInt, KFloat, KComplex, KStr, KBytes, KBool, KNoneType})"

definition is_dict :: "pyobj \<Rightarrow> bool" where
  "is_dict obj = (kind obj = KDict)"

definition is_sequence_or_set :: "pyobj \<Rightarrow> bool" where
  "is_sequence_or_set obj = (kind obj \<in> {KList, KTuple, KSet, KFrozenset})"

definition is_list_or_tuple :: "pyobj \<Rightarrow> bool" where
  "is_list_or_tuple obj = (kind obj \<in> {KList, KTuple})"

text \<open>\<^verbatim>\<open>callable(obj) and isinstance(obj, (FunctionType, BuiltinFunctionType, type))\<close>.\<close>

definition is_simple_callable :: "pyobj \<Rightarrow> bool" where
  "is_simple_callable obj =
     (dunder_call obj \<noteq> None \<and> kind obj \<in> {KFunction, KBuiltinFunction, KType})"

text \<open>The element types sampled from a collection of more than 20 items.\<close>

definition element_types :: "pyobj \<Rightarrow> int \<Rightarrow> jv res" where
  "element_types obj n =
     and_then
       (if is_list_or_tuple obj
        then map_res (\<lambda>i. and_then (py_getitem_int obj i) (\<lambda>x. Inr (JStr (type_name x))))
               [0 ..< nat (min 5 n)]
        else map_iter (\<lambda>x. Inr (JStr (type_name x))) (py_islice obj 5))
       (\<lambda>sample. Inr (JList sample))"

text \<open>The branch of \<^verbatim>\<open>inspect_one\<close> for lists, tuples and sets.\<close>

definition inspect_sequence :: "string \<Rightarrow> pyobj \<Rightarrow> jrec res" where
  "inspect_sequence name obj =
     (let n = safe_len obj;
          result = [(''name'', JStr name), (''type'', JStr (type_name obj)),
                    (''length'', case n of None \<Rightarrow> JNone | Some n \<Rightarrow> JInt n)]
      in case (case n of None \<Rightarrow> None | Some n \<Rightarrow> if n > 20 then Some n else None) of
           Some n \<Rightarrow>
             and_then (element_types obj n) (\<lambda>sample. Inr (setitem ''element_types'' sample result))
         | None \<Rightarrow> Inr (setitem ''repr'' (JStr (safe_repr obj 200)) result))"

definition inspect_one :: "string \<Rightarrow> pyobj \<Rightarrow> int \<Rightarrow> int option \<Rightarrow> jrec res" where
  "inspect_one name obj max_items max_name_length =
     (let md = module_of obj; cls = type_name obj
      in if is_scalar obj
         then Inr [(''name'', JStr name), (''type'', JStr cls), (''value'', JStr (safe_repr obj 200))]
         else if startswith md ''pandas'' \<and> cls = ''DataFrame''
         then inspect_pandas_dataframe name obj max_items max_name_length
         else if startswith md ''pandas'' \<and> cls = ''Series''
         then inspect_pandas_series name obj
         else if startswith md ''polars'' \<and> cls = ''DataFrame''
         then inspect_polars_dataframe name obj max_items max_name_length
         else if startswith md ''polars'' \<and> cls = ''LazyFrame''
         then Inr (inspect_polars_lazyframe name obj max_items max_name_length)
         else if startswith md ''polars'' \<and> cls = ''Series''
         then inspect_polars_series name obj
         else if startswith md ''numpy'' \<and> cls = ''ndarray''
         then inspect_numpy name obj
         else if startswith md ''xarray'' \<and> cls = ''Dataset''
         then inspect_xarray_dataset name obj max_items max_name_length
         else if startswith md ''xarray'' \<and> cls = ''DataArray''
         then inspect_xarray_dataarray name obj
         else if startswith md ''xarray'' \<and> cls = ''DataTree''
         then inspect_xarray_datatree name obj max_items max_name_length
         else if is_dict obj
         then inspect_dict name obj max_items max_name_length
         else if is_sequence_or_set obj
         then inspect_sequence name obj
         else if is_simple_callable obj
         then Inr [(''name'', JStr name), (''type'', JStr cls),
                   (''callable_name'', JRaw (safe_attr obj ''__name__'' py_qmark))]
         else inspect_generic name obj)"

section \<open>Listing a namespace\<close>

text \<open>
  \<^verbatim>\<open>summarize_one\<close> formats the record of \<^verbatim>\<open>inspect_one\<close> with
  \<^verbatim>\<open>_format_summary\<close>. That formatter renders byte counts with floating-point
  division and rounding, so it is a parameter here: what is proved about listings holds
  whatever it returns.
\<close>

definition summarize_one ::
  "(jrec \<Rightarrow> string res) \<Rightarrow> string \<Rightarrow> pyobj \<Rightarrow> int \<Rightarrow> int option \<Rightarrow> string res" where
  "summarize_one format_summary name obj max_items max_name_length =
     and_then (inspect_one name obj max_items max_name_length) format_summary"

definition always_skip :: "string list" where
  "always_skip = [''In'', ''Out'', ''get_ipython'', ''exit'', ''quit'', ''open'']"

text \<open>\<^verbatim>\<open>str.lower\<close> on the ASCII letters.\<close>

definition py_lower_char :: "char \<Rightarrow> char" where
  "py_lower_char c =
     (case map_of (zip ''ABCDEFGHIJKLMNOPQRSTUVWXYZ'' ''abcdefghijklmnopqrstuvwxyz'') c of
        None \<Rightarrow> c
      | Some l \<Rightarrow> l)"

definition py_lower :: "string \<Rightarrow> string" where
  "py_lower s = map py_lower_char s"

text \<open>\<^verbatim>\<open>p in s\<close> for strings.\<close>

fun contains :: "string \<Rightarrow> string \<Rightarrow> bool" where
  "contains [] p = (p = [])"
| "contains (c # cs) p = (startswith (c # cs) p \<or> contains cs p)"

text \<open>The loop over \<^verbatim>\<open>ns.items()\<close> with its four \<^verbatim>\<open>continue\<close> tests.\<close>

fun select_entries :: "string option \<Rightarrow> bool \<Rightarrow> (string \<times> pyobj) list \<Rightarrow> (string \<times> pyobj) list" where
  "select_entries filter_name include_private [] = []"
| "select_entries filter_name include_private ((vname, obj) # ns) =
     (if startswith vname ''_'' \<and> \<not> include_private
      then select_entries filter_name include_private ns
      else if vname \<in> set always_skip
      then select_entries filter_name include_private ns
      else if kind obj = KModule
      then select_entries filter_name include_private ns
      else if (case filter_name of
                 None \<Rightarrow> False
               | Some f \<Rightarrow> f \<noteq> [] \<and> \<not> contains (py_lower vname) (py_lower f))
      then select_entries filter_name include_private ns
      else (vname, obj) # select_entries filter_name include_private ns)"

text \<open>The local \<^verbatim>\<open>entries\<close> after \<^verbatim>\<open>entries = entries[:max_variables]\<close>.\<close>

definition listed_entries ::
  "(string \<times> pyobj) list \<Rightarrow> int \<Rightarrow> string option \<Rightarrow> bool \<Rightarrow> (string \<times> pyobj) list" where
  "listed_entries ns max_variables filter_name include_private =
     py_slice_to (select_entries filter_name include_private ns) max_variables"

datatype listing = Summaries "string list" | Records "jrec list"

definition basic_entry :: "string \<times> pyobj \<Rightarrow> jrec" where
  "basic_entry e =
     [(''name'', JStr (fst e)), (''type'', JStr (type_name (snd e))),
      (''repr'', JStr (safe_repr (snd e) 100))]"

definition list_user_variables ::
  "(jrec \<Rightarrow> string res) \<Rightarrow> (string \<times> pyobj) list \<Rightarrow> string \<Rightarrow> int \<Rightarrow> int \<Rightarrow> int option
     \<Rightarrow> string option \<Rightarrow> bool \<Rightarrow> listing res" where
  "list_user_variables format_summary ns detail max_variables max_items max_name_length
       filter_name include_private =
     (let entries = listed_entries ns max_variables filter_name include_private
      in if detail = ''schema''
         then and_then
                (map_res (\<lambda>(vname, obj).
                    summarize_one format_summary vname obj max_items max_name_length) entries)
                (\<lambda>xs. Inr (Summaries xs))
         else if detail = ''full''
         then and_then
                (map_res (\<lambda>(vname, obj). inspect_one vname obj max_items max_name_length) entries)
                (\<lambda>rs. Inr (Records rs))
         else Inr (Records (map basic_entry entries)))"

text \<open>An entry that the listing is specified to let through: no leading underscore
  unless private names are included, not one of the skipped session names, not a module,
  and a name that contains the filter, letter case aside, when there is one.\<close>

definition qualifies :: "string option \<Rightarrow> bool \<Rightarrow> string \<times> pyobj \<Rightarrow> bool" where
  "qualifies filter_name include_private e =
     ((include_private \<or> \<not> startswith (fst e) ''_'')
      \<and> fst e \<notin> set always_skip
      \<and> kind (snd e) \<noteq> KModule
      \<and> (case filter_name of
            None \<Rightarrow> True
          | Some f \<Rightarrow> contains (py_lower (fst e)) (py_lower f)))"

section \<open>Built-in values\<close>

text \<open>
  Instances of the exact built-in types, with the behaviour CPython gives them, as far
  as the inspector can observe it. Methods that the inspector never calls are left out
  of \<open>attrs\<close>.
\<close>

definition py_int_obj :: "int \<Rightarrow> pyobj" where
  "py_int_obj i = PyObj KInt False ''int'' ''builtins'' None (Str (str_of_int i)) None
     (Some (Inr (i \<noteq> 0))) (Inr i) [] None (Inl TypeError) [] []"

text \<open>An instance of a class that defines nothing of its own.\<close>

definition py_object :: "string \<Rightarrow> string \<Rightarrow> pyobj" where
  "py_object cls md = PyObj KObject False cls md None
     (Str (''<'' @ md @ ''.'' @ cls @ '' object>'')) None None (Inl TypeError) [] None
     (Inl TypeError) [] []"

text \<open>A method that returns \<open>r\<close> when called.\<close>

definition py_method :: "pyobj res \<Rightarrow> pyobj" where
  "py_method r = PyObj KBuiltinFunction False ''builtin_function_or_method'' ''builtins'' None
     (Str ''<built-in method>'') None None (Inl TypeError) [] (Some r) (Inl TypeError) [] []"

text \<open>An iterable view over \<open>xs\<close>, such as \<^verbatim>\<open>dict.keys()\<close> returns.\<close>

definition py_view :: "string \<Rightarrow> pyobj list \<Rightarrow> pyobj" where
  "py_view cls xs = PyObj KObject False cls ''builtins'' (Some (Inr (int (length xs))))
     (Str (''<'' @ cls @ ''>'')) None None (Inl TypeError) [] None (Inr (xs, None)) [] []"

text \<open>The \<^verbatim>\<open>repr\<close> of a container, from the \<^verbatim>\<open>repr\<close>s of its items: it raises
  when an item's does.\<close>

definition items_repr :: "string \<Rightarrow> string \<Rightarrow> pyobj list \<Rightarrow> str_ret" where
  "items_repr opening closing xs =
     (case map_res py_repr xs of
        Inl e \<Rightarrow> Raises e
      | Inr rs \<Rightarrow> Str (opening @ join_comma rs @ closing))"

text \<open>A list, tuple, set or frozenset (\<open>k\<close> says which) with the items \<open>xs\<close>, in
  iteration order for a set.\<close>

definition py_collection :: "kind \<Rightarrow> string \<Rightarrow> str_ret \<Rightarrow> pyobj list \<Rightarrow> pyobj" where
  "py_collection k cls r xs = PyObj k False cls ''builtins'' (Some (Inr (int (length xs)))) r None
     None (Inl TypeError) [] None (Inr (xs, None))
     (if k = KList \<or> k = KTuple then map Inr xs else []) []"

definition py_list_obj :: "pyobj list \<Rightarrow> pyobj" where
  "py_list_obj xs = py_collection KList ''list'' (items_repr ''['' '']'' xs) xs"

text \<open>A dictionary with the given entries (distinct keys).\<close>

definition dict_repr :: "(pyobj \<times> pyobj) list \<Rightarrow> str_ret" where
  "dict_repr kvs =
     (case map_res (\<lambda>(k, v). and_then (py_repr k) (\<lambda>a. and_then (py_repr v) (\<lambda>b. Inr (a @ '': '' @ b)))) kvs of
        Inl e \<Rightarrow> Raises e
      | Inr rs \<Rightarrow> Str (''{'' @ join_comma rs @ ''}''))"

definition py_dict_obj :: "(pyobj \<times> pyobj) list \<Rightarrow> pyobj" where
  "py_dict_obj kvs = PyObj KDict False ''dict'' ''builtins'' (Some (Inr (int (length kvs))))
     (dict_repr kvs) None None (Inl TypeError)
     [(''keys'', Inr (py_method (Inr (py_view ''dict_keys'' (map fst kvs)))))]
     None (Inr (map fst kvs, None)) [] (map (\<lambda>(k, v). (k, Inr v)) kvs)"

text \<open>The keys of a record.\<close>

definition rkeys :: "('k \<times> 'v) list \<Rightarrow> 'k set" where
  "rkeys r = fst ` set r"

section \<open>Families\<close>

text \<open>
  The dispatcher is an ordered chain of tests; \<open>family_of\<close> names the branch an object
  takes, and \<open>family_keys\<close> lists the keys a record of that family can have.
\<close>

datatype family = Scalar | PandasDataFrame | PandasSeries | PolarsDataFrame | PolarsLazyFrame
  | PolarsSeries | NumpyArray | XarrayDataset | XarrayDataArray | XarrayDataTree
  | Mapping | SequenceOrSet | SimpleCallable | Generic

definition family_of :: "pyobj \<Rightarrow> family" where
  "family_of obj =
     (let md = module_of obj; cls = type_name obj
      in if is_scalar obj then Scalar
         else if startswith md ''pandas'' \<and> cls = ''DataFrame'' then PandasDataFrame
         else if startswith md ''pandas'' \<and> cls = ''Series'' then PandasSeries
         else if startswith md ''polars'' \<and> cls = ''DataFrame'' then PolarsDataFrame
         else if startswith md ''polars'' \<and> cls = ''LazyFrame'' then PolarsLazyFrame
         else if startswith md ''polars'' \<and> cls = ''Series'' then PolarsSeries
         else if startswith md ''numpy'' \<and> cls = ''ndarray'' then NumpyArray
         else if startswith md ''xarray'' \<and> cls = ''Dataset'' then XarrayDataset
         else if startswith md ''xarray'' \<and> cls = ''DataArray'' then XarrayDataArray
         else if startswith md ''xarray'' \<and> cls = ''DataTree'' then XarrayDataTree
         else if is_dict obj then Mapping
         else if is_sequence_or_set obj then SequenceOrSet
         else if is_simple_callable obj then SimpleCallable
         else Generic)"

definition family_keys :: "family \<Rightarrow> string set" where
  "family_keys f =
     (case f of
        Scalar \<Rightarrow> {''name'', ''type'', ''value''}
      | PandasDataFrame \<Rightarrow> {''name'', ''type'', ''shape'', ''columns'', ''columns_truncated'',
           ''index_dtype'', ''index_type'', ''index_nlevels'', ''index_names'', ''memory_bytes''}
      | PandasSeries \<Rightarrow> {''name'', ''type'', ''shape'', ''dtype'', ''series_name'', ''memory_bytes''}
      | PolarsDataFrame \<Rightarrow> {''name'', ''type'', ''shape'', ''columns'', ''columns_truncated'',
           ''estimated_size_bytes''}
      | PolarsLazyFrame \<Rightarrow> {''name'', ''type'', ''columns'', ''lazy'', ''columns_truncated''}
      | PolarsSeries \<Rightarrow> {''name'', ''type'', ''shape'', ''dtype'', ''series_name''}
      | NumpyArray \<Rightarrow> {''name'', ''type'', ''shape'', ''dtype'', ''ndim'', ''nbytes''}
      | XarrayDataset \<Rightarrow> {''name'', ''type'', ''dims'', ''data_vars'', ''data_vars_truncated'',
           ''coords''}
      | XarrayDataArray \<Rightarrow> {''name'', ''type'', ''dims'', ''dtype''}
      | XarrayDataTree \<Rightarrow> {''name'', ''type'', ''children'', ''children_truncated'',
           ''data_vars'', ''dims'', ''total_nodes''}
      | Mapping \<Rightarrow> {''name'', ''type'', ''length'', ''keys'', ''keys_truncated'', ''values_preview''}
      | SequenceOrSet \<Rightarrow> {''name'', ''type'', ''length'', ''element_types'', ''repr''}
      | SimpleCallable \<Rightarrow> {''name'', ''type'', ''callable_name''}
      | Generic \<Rightarrow> {''name'', ''type'', ''shape'', ''dtype'', ''length'', ''repr''})"

text \<open>Steps 2 to 8 of the dispatch order: the object's module and type name select one
  of the library inspectors.\<close>

definition library_match :: "pyobj \<Rightarrow> bool" where
  "library_match obj =
     (let md = module_of obj; cls = type_name obj
      in (startswith md ''pandas'' \<and> (cls = ''DataFrame'' \<or> cls = ''Series''))
         \<or> (startswith md ''polars'' \<and> (cls = ''DataFrame'' \<or> cls = ''LazyFrame'' \<or> cls = ''Series''))
         \<or> (startswith md ''numpy'' \<and> cls = ''ndarray'')
         \<or> (startswith md ''xarray'' \<and> (cls = ''Dataset'' \<or> cls = ''DataArray'' \<or> cls = ''DataTree'')))"

text \<open>
  The object holds exactly the items \<open>xs\<close>, as an instance of a built-in container does
  when its class overrides none of \<^verbatim>\<open>__len__\<close>, \<^verbatim>\<open>__iter__\<close> and
  \<^verbatim>\<open>__getitem__\<close>: \<open>xs\<close> is what iteration yields, its length is what
  \<^verbatim>\<open>__len__\<close> returns (no container has more than \<^verbatim>\<open>sys.maxsize\<close> items), and a
  list or tuple answers position \<open>i\<close> with the \<open>i\<close>-th item.
\<close>

definition has_items :: "pyobj \<Rightarrow> pyobj list \<Rightarrow> bool" where
  "has_items obj xs =
     (dunder_len obj = Some (Inr (int (length xs)))
      \<and> int (length xs) \<le> sys_maxsize
      \<and> dunder_iter obj = Inr (xs, None)
      \<and> (is_list_or_tuple obj \<longrightarrow> item_at obj = map Inr xs))"

text \<open>The same object with another \<^verbatim>\<open>__repr__\<close>.\<close>

definition set_repr :: "str_ret \<Rightarrow> pyobj \<Rightarrow> pyobj" where
  "set_repr r obj = PyObj (kind obj) (abc_mapping obj) (tname obj) (tmodule obj) (dunder_len obj) r
     (dunder_str obj) (dunder_bool obj) (dunder_int obj) (attrs obj) (dunder_call obj)
     (dunder_iter obj) (item_at obj) (item_of obj)"

section \<open>Example objects\<close>

text \<open>An instance of \<^verbatim>\<open>class K\<close> whose \<^verbatim>\<open>__repr__\<close> raises \<^verbatim>\<open>RuntimeError\<close>.\<close>

definition unprintable :: pyobj where
  "unprintable = PyObj KObject False ''K'' ''__main__'' None (Raises RuntimeError) None None
     (Inl TypeError) [] None (Inl TypeError) [] []"

text \<open>An empty instance of \<^verbatim>\<open>class L(list)\<close> whose \<^verbatim>\<open>__len__\<close> returns
  \<^verbatim>\<open>2**63\<close>.\<close>

definition huge_len_list :: pyobj where
  "huge_len_list = PyObj KList False ''L'' ''__main__'' (Some (Inr (2 ^ 63))) (Str ''[]'') None
     None (Inl TypeError) [] None (Inr ([], None)) [] []"

text \<open>An instance of a class whose name has 250 characters and whose \<^verbatim>\<open>__repr__\<close>
  raises.\<close>

definition long_named :: pyobj where
  "long_named = PyObj KObject False (replicate 250 CHR ''A'') ''__main__'' None
     (Raises RuntimeError) None None (Inl TypeError) [] None (Inl TypeError) [] []"

text \<open>A numpy dtype with the string form \<open>s\<close>.\<close>

definition py_dtype :: "string \<Rightarrow> pyobj" where
  "py_dtype s = PyObj KObject False ''dtype'' ''numpy'' None (Str (''dtype('' @ s @ '')''))
     (Some (Str s)) None (Inl TypeError) [] None (Inl TypeError) [] []"

text \<open>
  An xarray \<^verbatim>\<open>DataTree\<close> without children whose dataset has the three float64
  variables \<^verbatim>\<open>a\<close>, \<^verbatim>\<open>b\<close>, \<^verbatim>\<open>c\<close> over one dimension \<^verbatim>\<open>x\<close> of size 4, and an
  xarray \<^verbatim>\<open>Dataset\<close> with the same variables. The nodes of \<^verbatim>\<open>subtree\<close> are only
  counted, so the one node is given as a plain object.
\<close>

definition data_variable :: pyobj where
  "data_variable = PyObj KObject False ''DataArray'' ''xarray.core.dataarray'' None
     (Str ''<xarray.DataArray>'') None None (Inl TypeError)
     [(''dtype'', Inr (py_dtype ''float64''))] None (Inl TypeError) [] []"

definition three_vars :: pyobj where
  "three_vars = PyObj KObject True ''DataVariables'' ''xarray.core.dataset'' (Some (Inr 3))
     (Str ''Data variables: a, b, c'') None None (Inl TypeError) [] None
     (Inr ([py_string ''a'', py_string ''b'', py_string ''c''], None)) []
     [(py_string ''a'', Inr data_variable), (py_string ''b'', Inr data_variable),
      (py_string ''c'', Inr data_variable)]"

definition py_pair :: "pyobj \<Rightarrow> pyobj \<Rightarrow> pyobj" where
  "py_pair a b = py_collection KTuple ''tuple'' (items_repr ''('' '')'' [a, b]) [a, b]"

definition one_dim :: pyobj where
  "one_dim = PyObj KObject True ''Frozen'' ''xarray.core.utils'' (Some (Inr 1))
     (Str ''Frozen({x: 4})'') None None (Inl TypeError)
     [(''items'', Inr (py_method (Inr (py_view ''dict_items''
                                         [py_pair (py_string ''x'') (py_int_obj 4)]))))]
     None (Inr ([py_string ''x''], None)) [] [(py_string ''x'', Inr (py_int_obj 4))]"

definition tree_dataset :: pyobj where
  "tree_dataset = PyObj KObject True ''DatasetView'' ''xarray.core.datatree'' (Some (Inr 3))
     (Str ''<xarray.DatasetView>'') None None (Inl TypeError)
     [(''data_vars'', Inr three_vars), (''sizes'', Inr one_dim)] None
     (Inr ([py_string ''a'', py_string ''b'', py_string ''c''], None)) [] []"

definition wide_tree :: pyobj where
  "wide_tree = PyObj KObject True ''DataTree'' ''xarray.core.datatree'' (Some (Inr 0))
     (Str ''<xarray.DataTree>'') None None (Inl TypeError)
     [(''children'', Inr (py_dict_obj [])), (''dataset'', Inr tree_dataset),
      (''subtree'', Inr (py_view ''generator'' [py_object ''DataTree'' ''xarray.core.datatree'']))]
     None (Inr ([], None)) [] []"

definition dataset_coords :: pyobj where
  "dataset_coords = PyObj KObject True ''DatasetCoordinates'' ''xarray.core.coordinates''
     (Some (Inr 1)) (Str ''Coordinates: x'') None None (Inl TypeError) [] None
     (Inr ([py_string ''x''], None)) [] []"

definition wide_dataset :: pyobj where
  "wide_dataset = PyObj KObject True ''Dataset'' ''xarray.core.dataset'' (Some (Inr 3))
     (Str ''<xarray.Dataset>'') None None (Inl TypeError)
     [(''data_vars'', Inr three_vars), (''sizes'', Inr one_dim), (''coords'', Inr dataset_coords)]
     None (Inr ([py_string ''a'', py_string ''b'', py_string ''c''], None)) [] []"

text \<open>
  A polars \<^verbatim>\<open>LazyFrame\<close> whose \<^verbatim>\<open>collect_schema()\<close> raises, one with the schema
  \<^verbatim>\<open>id: Int64, score: Float64\<close>, and a pandas \<^verbatim>\<open>DataFrame\<close> with the columns
  \<^verbatim>\<open>id: int64, score: float64\<close> and three rows.
\<close>

definition broken_lazyframe :: pyobj where
  "broken_lazyframe = PyObj KObject False ''LazyFrame'' ''polars.lazyframe.frame'' None
     (Str ''<LazyFrame>'') None None (Inl TypeError)
     [(''collect_schema'', Inr (py_method (Inl RuntimeError)))] None (Inl TypeError) [] []"

definition polars_dtype :: "string \<Rightarrow> pyobj" where
  "polars_dtype s = PyObj KObject False s ''polars.datatypes.classes'' None (Str s) None None
     (Inl TypeError) [] None (Inl TypeError) [] []"

definition small_schema :: pyobj where
  "small_schema = PyObj KDict False ''Schema'' ''polars.schema'' (Some (Inr 2))
     (Str ''Schema({id: Int64, score: Float64})'') None None (Inl TypeError)
     [(''names'', Inr (py_method (Inr (py_list_obj [py_string ''id'', py_string ''score'']))))]
     None (Inr ([py_string ''id'', py_string ''score''], None)) []
     [(py_string ''id'', Inr (polars_dtype ''Int64'')),
      (py_string ''score'', Inr (polars_dtype ''Float64''))]"

definition small_lazyframe :: pyobj where
  "small_lazyframe = PyObj KObject False ''LazyFrame'' ''polars.lazyframe.frame'' None
     (Str ''<LazyFrame>'') None None (Inl TypeError)
     [(''collect_schema'', Inr (py_method (Inr small_schema)))] None (Inl TypeError) [] []"

definition small_frame :: pyobj where
  "small_frame = PyObj KObject False ''DataFrame'' ''pandas.core.frame'' (Some (Inr 3))
     (Str ''<DataFrame>'') None (Some (Inl ValueError)) (Inl TypeError)
     [(''shape'', Inr (py_pair (py_int_obj 3) (py_int_obj 2))),
      (''columns'', Inr (py_view ''Index'' [py_string ''id'', py_string ''score''])),
      (''dtypes'', Inr (PyObj KObject False ''Series'' ''pandas.core.series'' (Some (Inr 2))
          (Str ''<Series>'') None (Some (Inl ValueError)) (Inl TypeError) [] None
          (Inr ([py_dtype ''int64'', py_dtype ''float64''], None)) []
          [(py_string ''id'', Inr (py_dtype ''int64'')),
           (py_string ''score'', Inr (py_dtype ''float64''))])),
      (''index'', Inr (PyObj KObject False ''RangeIndex'' ''pandas.core.indexes.range''
          (Some (Inr 3)) (Str ''RangeIndex(start=0, stop=3, step=1)'') None
          (Some (Inl ValueError)) (Inl TypeError) [(''dtype'', Inr (py_dtype ''int64''))] None
          (Inr ([py_int_obj 0, py_int_obj 1, py_int_obj 2], None)) [] [])),
      (''memory_usage'', Inr (py_method (Inr
          (PyObj KObject False ''Series'' ''pandas.core.series'' (Some (Inr 3))
             (Str ''<Series>'') None (Some (Inl ValueError)) (Inl TypeError)
             [(''sum'', Inr (py_method (Inr (py_int_obj 180))))] None
             (Inr ([py_int_obj 132, py_int_obj 24, py_int_obj 24], None)) [] []))))]
     None (Inr ([py_string ''id'', py_string ''score''], None)) [] []"










section \<open>Verified properties\<close>

subsection \<open>Records and sequencing\<close>

lemma and_then_simps [simp]:
  "and_then (Inl e) f = Inl e"
  "and_then (Inr x) f = f x"
  by (simp_all add: and_then_def)

lemma and_then_eq_Inr: "and_then m f = Inr r \<longleftrightarrow> (\<exists>x. m = Inr x \<and> f x = Inr r)"
  by (cases m) simp_all

lemma rkeys_simps [simp]: "rkeys [] = {}" "rkeys (p # r) = insert (fst p) (rkeys r)"
  by (simp_all add: rkeys_def)

lemma rkeys_setitem [simp]: "rkeys (setitem k v r) = insert k (rkeys r)"
  by (induction r) auto

lemma map_of_setitem [simp]: "map_of (setitem k v r) k' = (if k' = k then Some v else map_of r k')"
  by (induction r) auto

lemma map_of_None_rkeys: "map_of r k = None \<longleftrightarrow> k \<notin> rkeys r"
  by (simp add: rkeys_def map_of_eq_None_iff)


lemma rkeys_set_if_ok: "rkeys (set_if_ok k v r) \<subseteq> rkeys r \<union> {k}"
  by (cases v) (auto simp: set_if_ok_def)

lemma rkeys_set_truncated: "rkeys (set_truncated k t m r) \<subseteq> rkeys r \<union> {k}"
  by (cases t) (auto simp: set_truncated_def)

lemma and_thenE:
  assumes "and_then m f = Inr r"
  obtains x where "m = Inr x" and "f x = Inr r"
  using assms by (cases m) simp_all

lemma and_then2E:
  assumes "and_then m (\<lambda>x. and_then (g x) h) = Inr r"
  obtains x y where "m = Inr x" and "g x = Inr y" and "h y = Inr r"
  using assms by (cases m; cases "g (projr m)") auto

lemma and_then3E:
  assumes "and_then m (\<lambda>x. and_then (g x) (\<lambda>y. and_then (h x y) (k x y))) = Inr r"
  obtains x y z where "m = Inr x" and "g x = Inr y" and "h x y = Inr z" and "k x y z = Inr r"
  using assms by (cases m; cases "g (projr m)"; cases "h (projr m) (projr (g (projr m)))") auto

text \<open>Key sets grow step by step; the side condition is between literal sets.\<close>

lemma keys_chain1: "A \<subseteq> I \<union> S0 \<Longrightarrow> I \<union> S0 \<subseteq> K \<Longrightarrow> A \<subseteq> K"
  by blast

lemma keys_chain2: "A \<subseteq> I \<union> S0 \<Longrightarrow> B \<subseteq> A \<union> S1 \<Longrightarrow> I \<union> S0 \<union> S1 \<subseteq> K \<Longrightarrow> B \<subseteq> K"
  by blast

lemma keys_chain3:
  "A \<subseteq> I \<union> S0 \<Longrightarrow> B \<subseteq> A \<union> S1 \<Longrightarrow> C \<subseteq> B \<union> S2 \<Longrightarrow> I \<union> S0 \<union> S1 \<union> S2 \<subseteq> K \<Longrightarrow> C \<subseteq> K"
  by blast

subsection \<open>The keys each inspector can set\<close>

lemma rkeys_add_index_info:
  "add_index_info obj r = Inr r' \<Longrightarrow>
   rkeys r' \<subseteq> rkeys r \<union> {''index_dtype'', ''index_type'', ''index_nlevels'', ''index_names''}"
  by (auto simp: add_index_info_def Let_def split: if_splits elim!: and_thenE)

lemma rkeys_frame_fields:
  "frame_fields name ty a obj mi mnl = Inr r \<Longrightarrow>
     rkeys r \<subseteq> {''name'', ''type'', ''shape'', ''columns''} \<union> {''columns_truncated''}"
  by (auto simp: frame_fields_def Let_def split: if_splits elim!: and_thenE)

lemma rkeys_pandas_dataframe:
  assumes "inspect_pandas_dataframe name obj mi mnl = Inr r"
  shows "rkeys r \<subseteq> {''name'', ''type'', ''shape'', ''columns'', ''columns_truncated'', ''index_dtype'',
                ''index_type'', ''index_nlevels'', ''index_names'', ''memory_bytes''}"
  using assms unfolding inspect_pandas_dataframe_def
proof (rule and_then2E)
  fix r0 r1
  assume r0: "frame_fields name ''DataFrame'' ''dtypes'' obj mi mnl = Inr r0"
    and r1: "add_index_info obj r0 = Inr r1"
    and r: "Inr (set_if_ok ''memory_bytes'' (frame_memory_bytes obj) r1) = Inr r"
  from r have c: "rkeys r \<subseteq> rkeys r1 \<union> {''memory_bytes''}"
    using rkeys_set_if_ok [of "''memory_bytes''" "frame_memory_bytes obj" r1] by simp
  show ?thesis
    by (rule keys_chain3 [OF rkeys_frame_fields [OF r0] rkeys_add_index_info [OF r1] c]) simp
qed

lemma rkeys_polars_dataframe:
  assumes "inspect_polars_dataframe name obj mi mnl = Inr r"
  shows "rkeys r \<subseteq> {''name'', ''type'', ''shape'', ''columns'', ''columns_truncated'',
                ''estimated_size_bytes''}"
  using assms unfolding inspect_polars_dataframe_def
proof (rule and_thenE)
  fix r0
  assume r0: "frame_fields name ''polars.DataFrame'' ''schema'' obj mi mnl = Inr r0"
    and r: "Inr (set_if_ok ''estimated_size_bytes''
                   (and_then (py_call_method obj ''estimated_size'') (\<lambda>b. Inr (JRaw b))) r0) = Inr r"
  from r have c: "rkeys r \<subseteq> rkeys r0 \<union> {''estimated_size_bytes''}"
    using rkeys_set_if_ok [of "''estimated_size_bytes''" _ r0] by auto
  show ?thesis
    by (rule keys_chain2 [OF rkeys_frame_fields [OF r0] c]) simp
qed

lemma rkeys_series_fields:
  "series_fields name ty obj = Inr r \<Longrightarrow>
     rkeys r \<subseteq> {''name'', ''type'', ''shape'', ''dtype''} \<union> {''series_name''}"
  by (auto simp: series_fields_def Let_def split: if_splits elim!: and_thenE)

lemma rkeys_pandas_series:
  assumes "inspect_pandas_series name obj = Inr r"
  shows "rkeys r \<subseteq> {''name'', ''type'', ''shape'', ''dtype'', ''series_name'', ''memory_bytes''}"
  using assms unfolding inspect_pandas_series_def
proof (rule and_thenE)
  fix r0
  assume r0: "series_fields name ''Series'' obj = Inr r0"
    and r: "Inr (set_if_ok ''memory_bytes'' (series_memory_bytes obj) r0) = Inr r"
  from r have c: "rkeys r \<subseteq> rkeys r0 \<union> {''memory_bytes''}"
    using rkeys_set_if_ok [of "''memory_bytes''" "series_memory_bytes obj" r0] by simp
  show ?thesis
    by (rule keys_chain2 [OF rkeys_series_fields [OF r0] c]) simp
qed

lemma rkeys_polars_lazyframe:
  "rkeys (inspect_polars_lazyframe name obj mi mnl)
     \<subseteq> {''name'', ''type'', ''columns'', ''lazy'', ''columns_truncated''}"
  by (auto simp: inspect_polars_lazyframe_def lazyframe_schema_record_def Let_def
      split: sum.splits if_splits elim!: and_thenE)

lemma rkeys_numpy:
  "inspect_numpy name obj = Inr r \<Longrightarrow>
     rkeys r \<subseteq> {''name'', ''type'', ''shape'', ''dtype'', ''ndim'', ''nbytes''}"
  by (auto simp: inspect_numpy_def elim!: and_thenE)

lemma rkeys_add_dims:
  "add_dims owner mi r = Inr r' \<Longrightarrow> rkeys r' \<subseteq> rkeys r \<union> {''dims''}"
  by (auto simp: add_dims_def Let_def split: if_splits elim!: and_thenE)

lemma rkeys_add_dataset_vars:
  assumes "add_dataset_vars obj mi mnl r = Inr r'"
  shows "rkeys r' \<subseteq> rkeys r \<union> {''data_vars'', ''data_vars_truncated''}"
proof (cases "is_none (safe_attr obj ''data_vars'' py_none)")
  case True
  with assms show ?thesis by (auto simp: add_dataset_vars_def)
next
  case False
  with assms obtain vs where
    r': "r' = set_truncated ''data_vars_truncated'' (safe_len (safe_attr obj ''data_vars'' py_none)) mi
               (setitem ''data_vars'' vs r)"
    by (auto simp: add_dataset_vars_def Let_def elim!: and_thenE)
  show ?thesis
    unfolding r'
    using rkeys_set_truncated [of "''data_vars_truncated''" _ mi "setitem ''data_vars'' vs r"]
    by auto
qed

lemma rkeys_add_coords:
  "add_coords obj mi mnl r = Inr r' \<Longrightarrow> rkeys r' \<subseteq> rkeys r \<union> {''coords''}"
  by (auto simp: add_coords_def Let_def split: if_splits elim!: and_thenE)

lemma rkeys_xarray_dataset:
  assumes "inspect_xarray_dataset name obj mi mnl = Inr r"
  shows "rkeys r \<subseteq> {''name'', ''type'', ''dims'', ''data_vars'', ''data_vars_truncated'', ''coords''}"
  using assms unfolding inspect_xarray_dataset_def
proof (rule and_then2E)
  fix r0 r1
  assume r0: "add_dims obj mi [(''name'', JStr name), (''type'', JStr ''xarray.Dataset'')] = Inr r0"
    and r1: "add_dataset_vars obj mi mnl r0 = Inr r1"
    and r: "add_coords obj mi mnl r1 = Inr r"
  show ?thesis
    by (rule keys_chain3 [OF rkeys_add_dims [OF r0] rkeys_add_dataset_vars [OF r1]
          rkeys_add_coords [OF r]]) simp
qed

lemma rkeys_xarray_dataarray:
  "inspect_xarray_dataarray name obj = Inr r \<Longrightarrow> rkeys r \<subseteq> {''name'', ''type'', ''dims'', ''dtype''}"
  by (auto simp: inspect_xarray_dataarray_def Let_def split: if_splits elim!: and_thenE)

lemma rkeys_add_children:
  assumes "add_children obj mi mnl r = Inr r'"
  shows "rkeys r' \<subseteq> rkeys r \<union> {''children'', ''children_truncated''}"
  using assms unfolding add_children_def Let_def
proof (rule and_thenE)
  fix has_children
  assume "(if has_children
        then and_then (py_call_method (safe_attr obj ''children'' py_empty_dict) ''keys'')
              (\<lambda>ks. and_then (names_field ks mi mnl)
                     (\<lambda>cs. Inr (set_truncated ''children_truncated''
                                 (safe_len (safe_attr obj ''children'' py_empty_dict)) mi
                                 (setitem ''children'' cs r))))
        else Inr r) = Inr r'"
  then consider "r' = r"
    | cs where "r' = set_truncated ''children_truncated''
                  (safe_len (safe_attr obj ''children'' py_empty_dict)) mi (setitem ''children'' cs r)"
    by (auto split: if_splits elim!: and_thenE)
  then show ?thesis
  proof cases
    case 1
    then show ?thesis by auto
  next
    case 2
    show ?thesis
      unfolding 2
      using rkeys_set_truncated [of "''children_truncated''" _ mi "setitem ''children'' cs r"]
      by auto
  qed
qed

lemma rkeys_add_tree_vars:
  "add_tree_vars ds mi mnl r = Inr r' \<Longrightarrow> rkeys r' \<subseteq> rkeys r \<union> {''data_vars''}"
  by (auto simp: add_tree_vars_def Let_def split: if_splits elim!: and_thenE)

lemma rkeys_add_tree_dataset:
  assumes "add_tree_dataset obj mi mnl r = Inr r'"
  shows "rkeys r' \<subseteq> rkeys r \<union> {''data_vars'', ''dims''}"
proof (cases "is_none (safe_attr obj ''dataset'' py_none)")
  case True
  with assms show ?thesis by (auto simp: add_tree_dataset_def)
next
  case False
  with assms have "and_then (add_tree_vars (safe_attr obj ''dataset'' py_none) mi mnl r)
                (\<lambda>result. add_dims (safe_attr obj ''dataset'' py_none) mi result) = Inr r'"
    by (simp add: add_tree_dataset_def Let_def)
  then show ?thesis
  proof (rule and_thenE)
    fix r0
    assume r0: "add_tree_vars (safe_attr obj ''dataset'' py_none) mi mnl r = Inr r0"
      and r': "add_dims (safe_attr obj ''dataset'' py_none) mi r0 = Inr r'"
    show ?thesis
      by (rule keys_chain2 [OF rkeys_add_tree_vars [OF r0] rkeys_add_dims [OF r']]) auto
  qed
qed

lemma rkeys_xarray_datatree:
  assumes "inspect_xarray_datatree name obj mi mnl = Inr r"
  shows "rkeys r \<subseteq> {''name'', ''type'', ''children'', ''children_truncated'', ''data_vars'', ''dims'',
               ''total_nodes''}"
  using assms unfolding inspect_xarray_datatree_def
proof (rule and_then2E)
  fix r0 r1
  assume r0: "add_children obj mi mnl [(''name'', JStr name), (''type'', JStr ''xarray.DataTree'')] = Inr r0"
    and r1: "add_tree_dataset obj mi mnl r0 = Inr r1"
    and r: "Inr (set_if_ok ''total_nodes'' (total_nodes_field obj) r1) = Inr r"
  from r have c: "rkeys r \<subseteq> rkeys r1 \<union> {''total_nodes''}"
    using rkeys_set_if_ok [of "''total_nodes''" "total_nodes_field obj" r1] by simp
  show ?thesis
    by (rule keys_chain3 [OF rkeys_add_children [OF r0] rkeys_add_tree_dataset [OF r1] c]) simp
qed

lemma rkeys_dict:
  assumes "inspect_dict name obj mi mnl = Inr r"
  shows "rkeys r \<subseteq> {''name'', ''type'', ''length'', ''keys'', ''keys_truncated'', ''values_preview''}"
  using assms unfolding inspect_dict_def Let_def
proof (rule and_then3E, goal_cases)
  case (1 ks keys key_names)
  let ?base = "set_truncated ''keys_truncated'' (safe_len obj) mi
          (setitem ''keys'' (JList key_names)
             [(''name'', JStr name), (''type'', JStr (type_name obj)),
              (''length'', case safe_len obj of None \<Rightarrow> JNone | Some n \<Rightarrow> JInt n)])"
  from 1(4) have "rkeys r \<subseteq> rkeys ?base \<union> {''values_preview''}"
    by (auto split: if_splits)
  from keys_chain2 [OF rkeys_set_truncated this] show ?case
    by simp
qed

lemma rkeys_sequence:
  "inspect_sequence name obj = Inr r \<Longrightarrow>
     rkeys r \<subseteq> {''name'', ''type'', ''length'', ''element_types'', ''repr''}"
  by (auto simp: inspect_sequence_def Let_def split: if_splits option.splits elim!: and_thenE)

lemma rkeys_generic:
  assumes "inspect_generic name obj = Inr r"
  shows "rkeys r \<subseteq> {''name'', ''type'', ''shape'', ''dtype'', ''length'', ''repr''}"
  using assms unfolding inspect_generic_def Let_def
proof (rule and_thenE, goal_cases)
  case (1 r2)
  let ?r0 = "[(''name'', JStr name), (''type'', JStr (generic_type obj))]"
  let ?r1 = "if is_none (safe_attr obj ''shape'' py_none) then ?r0
             else set_if_ok ''shape'' (list_field (safe_attr obj ''shape'' py_none)) ?r0"
  have r1: "rkeys ?r1 \<subseteq> rkeys ?r0 \<union> {''shape''}"
    using rkeys_set_if_ok [of "''shape''" _ ?r0] by auto
  from 1(1) have r2: "rkeys r2 \<subseteq> rkeys ?r1 \<union> {''dtype''}"
    by (auto split: if_splits elim!: and_thenE)
  from 1(2) have r: "rkeys r \<subseteq> rkeys r2 \<union> {''length'', ''repr''}"
    by (auto split: option.splits)
  show ?case
    by (rule keys_chain3 [OF r1 r2 r]) simp
qed

lemma rkeys_polars_series:
  assumes "inspect_polars_series name obj = Inr r"
  shows "rkeys r \<subseteq> {''name'', ''type'', ''shape'', ''dtype'', ''series_name''}"
  by (rule keys_chain1 [OF rkeys_series_fields [OF assms [unfolded inspect_polars_series_def]]])
     simp

lemma inspect_one_by_family:
  "inspect_one name obj mi mnl =
     (case family_of obj of
        Scalar \<Rightarrow> Inr [(''name'', JStr name), (''type'', JStr (type_name obj)),
                       (''value'', JStr (safe_repr obj 200))]
      | PandasDataFrame \<Rightarrow> inspect_pandas_dataframe name obj mi mnl
      | PandasSeries \<Rightarrow> inspect_pandas_series name obj
      | PolarsDataFrame \<Rightarrow> inspect_polars_dataframe name obj mi mnl
      | PolarsLazyFrame \<Rightarrow> Inr (inspect_polars_lazyframe name obj mi mnl)
      | PolarsSeries \<Rightarrow> inspect_polars_series name obj
      | NumpyArray \<Rightarrow> inspect_numpy name obj
      | XarrayDataset \<Rightarrow> inspect_xarray_dataset name obj mi mnl
      | XarrayDataArray \<Rightarrow> inspect_xarray_dataarray name obj
      | XarrayDataTree \<Rightarrow> inspect_xarray_datatree name obj mi mnl
      | Mapping \<Rightarrow> inspect_dict name obj mi mnl
      | SequenceOrSet \<Rightarrow> inspect_sequence name obj
      | SimpleCallable \<Rightarrow> Inr [(''name'', JStr name), (''type'', JStr (type_name obj)),
                               (''callable_name'', JRaw (safe_attr obj ''__name__'' py_qmark))]
      | Generic \<Rightarrow> inspect_generic name obj)"
  by (simp add: inspect_one_def family_of_def Let_def)

text \<open>The keys of a record are among those of its family.\<close>

lemma inspect_one_keys:
  assumes "inspect_one name obj mi mnl = Inr r"
  shows "rkeys r \<subseteq> family_keys (family_of obj)"
  using assms
proof (cases "family_of obj")
  case Scalar
  with assms show ?thesis by (auto simp: inspect_one_by_family family_keys_def)
next
  case PandasDataFrame
  with assms rkeys_pandas_dataframe show ?thesis by (simp add: inspect_one_by_family family_keys_def)
next
  case PandasSeries
  with assms rkeys_pandas_series show ?thesis by (simp add: inspect_one_by_family family_keys_def)
next
  case PolarsDataFrame
  with assms rkeys_polars_dataframe show ?thesis by (simp add: inspect_one_by_family family_keys_def)
next
  case PolarsLazyFrame
  with assms rkeys_polars_lazyframe [of name obj mi mnl] show ?thesis
    by (auto simp: inspect_one_by_family family_keys_def)
next
  case PolarsSeries
  with assms rkeys_polars_series show ?thesis by (simp add: inspect_one_by_family family_keys_def)
next
  case NumpyArray
  with assms rkeys_numpy show ?thesis by (simp add: inspect_one_by_family family_keys_def)
next
  case XarrayDataset
  with assms rkeys_xarray_dataset show ?thesis by (simp add: inspect_one_by_family family_keys_def)
next
  case XarrayDataArray
  with assms rkeys_xarray_dataarray show ?thesis by (simp add: inspect_one_by_family family_keys_def)
next
  case XarrayDataTree
  with assms rkeys_xarray_datatree show ?thesis by (simp add: inspect_one_by_family family_keys_def)
next
  case Mapping
  with assms rkeys_dict show ?thesis by (simp add: inspect_one_by_family family_keys_def)
next
  case SequenceOrSet
  with assms rkeys_sequence show ?thesis by (simp add: inspect_one_by_family family_keys_def)
next
  case SimpleCallable
  with assms show ?thesis by (auto simp: inspect_one_by_family family_keys_def)
next
  case Generic
  with assms rkeys_generic show ?thesis by (simp add: inspect_one_by_family family_keys_def)
qed

subsection \<open>Evaluating concrete inputs\<close>

lemmas py_defs = sys_maxsize_def py_len_def py_repr_def py_str_def py_int_def py_gt_def py_truthy_def is_none_def
  py_getattr_def py_call_def py_call_method_def py_getitem_int_def py_getitem_def py_iter_def
  py_islice_def py_list_def map_iter_def py_slice_to_def startswith_def
  safe_attr_def safe_len_def truncate_name_def is_bulk_container_def safe_repr_def
  type_name_def module_of_def set_if_ok_def set_truncated_def list_field_def str_field_def

lemmas obj_defs = py_none_def py_empty_tuple_def py_empty_list_def py_empty_dict_def py_qmark_def
  py_string_def py_int_obj_def py_object_def py_method_def py_view_def items_repr_def
  py_collection_def py_list_obj_def dict_repr_def py_dict_obj_def

lemmas dispatch_defs = inspect_one_def is_scalar_def is_dict_def is_sequence_or_set_def
  is_list_or_tuple_def is_simple_callable_def

lemmas digit_defs = str_of_int_def digits.simps digit_char_def

lemmas frame_defs = broken_lazyframe_def polars_dtype_def small_schema_def small_lazyframe_def
  small_frame_def

lemmas example_defs = unprintable_def huge_len_list_def long_named_def py_dtype_def data_variable_def three_vars_def
  py_pair_def one_dim_def tree_dataset_def wide_tree_def dataset_coords_def wide_dataset_def

subsection \<open>Name truncation\<close>

lemma py_str_py_string: "py_str (py_string s) = Inr s"
  by (simp add: py_str_def py_string_def)

text \<open>
  C8 (failing input). With \<^verbatim>\<open>max_len = 2\<close> the six-character name \<^verbatim>\<open>abcdef\<close> comes
  back as the eight characters \<^verbatim>\<open>abcde...\<close>: the slice \<^verbatim>\<open>s[: max_len - 3]\<close> has a
  negative bound and drops one character from the end, so the result is longer than
  \<^verbatim>\<open>max_len\<close> and longer than the name itself. \<^verbatim>\<open>inspect_one\<close> reaches it with
  \<^verbatim>\<open>inspect_one("d", {"abcdef": 1}, 20, 2)\<close>.
\<close>

theorem truncate_name_exceeds_budget:
  "truncate_name (py_string ''abcdef'') (Some 2) = Inr ''abcde...''
   \<and> length ''abcde...'' = 8
   \<and> inspect_one ''d'' (py_dict_obj [(py_string ''abcdef'', py_int_obj 1)]) 20 (Some 2) =
       Inr [(''name'', JStr ''d''), (''type'', JStr ''dict''), (''length'', JInt 1),
            (''keys'', JList [JStr ''abcde...'']),
            (''values_preview'', JRec [(''abcdef'', JStr ''int: 1'')])]"
  by (simp add: dispatch_defs inspect_dict_def values_preview_def preview_entry_def py_defs
      obj_defs digit_defs Let_def)

text \<open>
  From a budget of 3 on, truncation does what its docstring says: for a name whose string
  form is \<open>s\<close>, the result is \<open>s\<close> when there is no budget or \<open>s\<close> is within it, and
  otherwise exactly \<open>m\<close> characters, the first \<open>m - 3\<close> of \<open>s\<close> and the ellipsis.
\<close>

lemma truncate_name_from_three:
  "py_str name = Inr s \<Longrightarrow>
     truncate_name name None = Inr s
     \<and> (int (length s) \<le> m \<longrightarrow> truncate_name name (Some m) = Inr s)
     \<and> (3 \<le> m \<and> m < int (length s) \<longrightarrow>
          truncate_name name (Some m) = Inr (take (nat (m - 3)) s @ ''...'')
          \<and> int (length (take (nat (m - 3)) s @ ''...'')) = m)"
  by (auto simp: truncate_name_def py_slice_to_def)

subsection \<open>inspect_one can raise\<close>

text \<open>
  C1 (failing input). \<^verbatim>\<open>inspect_one("d", {K(): 1})\<close>, where \<^verbatim>\<open>K.__repr__\<close> raises
  \<^verbatim>\<open>RuntimeError\<close>, does not return a record: \<^verbatim>\<open>_inspect_dict\<close> builds the \<^verbatim>\<open>keys\<close>
  list with \<^verbatim>\<open>_truncate_name(k, ...)\<close>, which calls \<^verbatim>\<open>str(k)\<close> outside any handler, and
  the exception leaves \<^verbatim>\<open>inspect_one\<close>.
\<close>

theorem inspect_one_raises_on_unprintable_key:
  "inspect_one ''d'' (py_dict_obj [(unprintable, py_int_obj 1)]) 20 (Some 60) = Inl RuntimeError"
  by (simp add: dispatch_defs inspect_dict_def py_defs obj_defs unprintable_def)

subsection \<open>Truncation markers of capped collections\<close>

text \<open>
  C2 (failing input). With \<^verbatim>\<open>max_items = 2\<close>, the record of a \<^verbatim>\<open>DataTree\<close> whose
  dataset has three variables lists two of them under \<^verbatim>\<open>data_vars\<close> and has no
  \<^verbatim>\<open>data_vars_truncated\<close> field, while the record of a \<^verbatim>\<open>Dataset\<close> with the same three
  variables has \<^verbatim>\<open>data_vars_truncated = 3\<close>.
\<close>

theorem datatree_omits_data_vars_truncated:
  "inspect_one ''tree'' wide_tree 2 (Some 60) =
     Inr [(''name'', JStr ''tree''), (''type'', JStr ''xarray.DataTree''),
          (''data_vars'',
           JList [JRec [(''name'', JStr ''a''), (''dtype'', JStr ''float64'')],
                  JRec [(''name'', JStr ''b''), (''dtype'', JStr ''float64'')]]),
          (''dims'', JMap [(py_string ''x'', py_int_obj 4)]),
          (''total_nodes'', JInt 1)]
   \<and> inspect_one ''ds'' wide_dataset 2 (Some 60) =
     Inr [(''name'', JStr ''ds''), (''type'', JStr ''xarray.Dataset''),
          (''dims'', JMap [(py_string ''x'', py_int_obj 4)]),
          (''data_vars'',
           JList [JRec [(''name'', JStr ''a''), (''dtype'', JStr ''float64'')],
                  JRec [(''name'', JStr ''b''), (''dtype'', JStr ''float64'')]]),
          (''data_vars_truncated'', JInt 3),
          (''coords'', JList [JStr ''x''])]"
  by (simp add: dispatch_defs inspect_xarray_datatree_def add_children_def add_tree_dataset_def
      add_tree_vars_def inspect_xarray_dataset_def add_dataset_vars_def add_coords_def
      add_dims_def dims_field_def dict_of_pairs_def pair_of_def
      data_vars_field_def data_var_entry_def names_field_def total_nodes_field_def
      py_defs obj_defs example_defs Let_def)

subsection \<open>The character cap of safe_repr\<close>

text \<open>
  C3 (failing input). For an object whose type name has 250 characters and whose
  \<^verbatim>\<open>__repr__\<close> raises, \<^verbatim>\<open>_safe_repr(obj, 200)\<close> returns the fallback
  \<^verbatim>\<open><TypeName>\<close> of 252 characters, and \<^verbatim>\<open>inspect_one\<close> emits it in the \<^verbatim>\<open>repr\<close>
  field: the fallback is returned before the cap is applied.
\<close>

theorem long_type_name_exceeds_cap:
  "inspect_one ''x'' long_named 20 (Some 60) =
     Inr [(''name'', JStr ''x''), (''type'', JStr (replicate 250 CHR ''A'')),
          (''repr'', JStr (''<'' @ replicate 250 CHR ''A'' @ ''>''))]
   \<and> length (''<'' @ replicate 250 CHR ''A'' @ ''>'') = 252"
  by (simp add: dispatch_defs inspect_generic_def generic_type_def known_prefixes_def py_defs
      long_named_def py_none_def Let_def)

subsection \<open>Placeholder and fallback of safe_repr\<close>

lemma safe_repr_placeholder:
  "is_bulk_container obj \<Longrightarrow> py_len obj = Inr n \<Longrightarrow> 20 < n \<Longrightarrow>
     safe_repr obj limit = ''<'' @ tname obj @ '' with '' @ str_of_int n @ '' items>''"
  by (simp add: safe_repr_def)

lemma safe_repr_no_placeholder:
  "\<not> (is_bulk_container obj \<and> (\<exists>n. py_len obj = Inr n \<and> 20 < n)) \<Longrightarrow>
     safe_repr obj limit =
       (case py_repr obj of
          Inl e \<Rightarrow> ''<'' @ tname obj @ ''>''
        | Inr r \<Rightarrow> if int (length r) > limit then py_slice_to r (limit - 3) @ ''...'' else r)"
  by (auto simp: safe_repr_def split: sum.splits)

lemma has_items_len: "has_items obj xs \<Longrightarrow> py_len obj = Inr (int (length xs))"
  by (simp add: has_items_def py_len_def)

text \<open>
  C6. For a dict, list, tuple, set or frozenset instance for which \<^verbatim>\<open>len\<close> returns
  \<open>n > 20\<close>, \<^verbatim>\<open>_safe_repr\<close> returns exactly \<^verbatim>\<open><TypeName with n items>\<close>, whatever
  the object's \<^verbatim>\<open>__repr__\<close> would do (it is not consulted); for one that holds the items
  \<open>xs\<close>, more than 20 of them, \<open>n\<close> is their number. For every other object (also a
  container for which \<^verbatim>\<open>len\<close> raises or returns at most 20) it takes
  \<^verbatim>\<open>repr(obj)\<close>: when \<^verbatim>\<open>__repr__\<close> raises or returns a non-string the result is the
  fallback \<^verbatim>\<open><TypeName>\<close>, and when it returns a string the result is that string, capped.
\<close>

theorem safe_repr_spec:
  "(is_bulk_container obj \<and> py_len obj = Inr n \<and> 20 < n \<longrightarrow>
      safe_repr obj limit = ''<'' @ tname obj @ '' with '' @ str_of_int n @ '' items>''
      \<and> safe_repr (set_repr r obj) limit = safe_repr obj limit)
   \<and> (is_bulk_container obj \<and> has_items obj xs \<and> 20 < length xs \<longrightarrow>
      safe_repr obj limit
        = ''<'' @ tname obj @ '' with '' @ str_of_int (int (length xs)) @ '' items>'')
   \<and> (\<not> (is_bulk_container obj \<and> (\<exists>n. py_len obj = Inr n \<and> 20 < n)) \<longrightarrow>
        (dunder_repr obj = Raises e \<or> dunder_repr obj = NonStr \<longrightarrow>
           safe_repr obj limit = ''<'' @ tname obj @ ''>'')
        \<and> (dunder_repr obj = Str s \<longrightarrow>
           safe_repr obj limit =
             (if int (length s) > limit then py_slice_to s (limit - 3) @ ''...'' else s)))"
proof (intro conjI impI)
  assume a: "is_bulk_container obj \<and> py_len obj = Inr n \<and> 20 < n"
  then show "safe_repr obj limit = ''<'' @ tname obj @ '' with '' @ str_of_int n @ '' items>''"
    by (simp add: safe_repr_placeholder)
  from a have "is_bulk_container (set_repr r obj)" "py_len (set_repr r obj) = Inr n"
    "tname (set_repr r obj) = tname obj"
    by (simp_all add: set_repr_def is_bulk_container_def py_len_def)
  with a show "safe_repr (set_repr r obj) limit = safe_repr obj limit"
    by (simp add: safe_repr_placeholder)
next
  assume "is_bulk_container obj \<and> has_items obj xs \<and> 20 < length xs"
  then show "safe_repr obj limit
        = ''<'' @ tname obj @ '' with '' @ str_of_int (int (length xs)) @ '' items>''"
    using has_items_len [of obj xs] by (simp add: safe_repr_placeholder)
next
  assume "\<not> (is_bulk_container obj \<and> (\<exists>n. py_len obj = Inr n \<and> 20 < n))"
    and "dunder_repr obj = Raises e \<or> dunder_repr obj = NonStr"
  then show "safe_repr obj limit = ''<'' @ tname obj @ ''>''"
    by (auto simp: safe_repr_no_placeholder py_repr_def)
next
  assume "\<not> (is_bulk_container obj \<and> (\<exists>n. py_len obj = Inr n \<and> 20 < n))"
    and "dunder_repr obj = Str s"
  then show "safe_repr obj limit =
             (if int (length s) > limit then py_slice_to s (limit - 3) @ ''...'' else s)"
    by (simp add: safe_repr_no_placeholder py_repr_def)
qed

lemma py_collection_sel:
  "kind (py_collection k cls r xs) = k"
  "tname (py_collection k cls r xs) = cls"
  "tmodule (py_collection k cls r xs) = ''builtins''"
  "dunder_len (py_collection k cls r xs) = Some (Inr (int (length xs)))"
  "dunder_repr (py_collection k cls r xs) = r"
  "dunder_iter (py_collection k cls r xs) = Inr (xs, None)"
  "item_at (py_collection k cls r xs) = (if k = KList \<or> k = KTuple then map Inr xs else [])"
  by (simp_all add: py_collection_def)

lemma has_items_py_collection:
  "int (length xs) \<le> sys_maxsize \<Longrightarrow> has_items (py_collection k cls r xs) xs"
  by (simp add: has_items_def py_collection_sel is_list_or_tuple_def)

theorem safe_repr_spec_witness:
  "safe_repr (py_list_obj (replicate 21 py_none)) 200 = ''<list with 21 items>''
   \<and> safe_repr (set_repr (Raises RuntimeError) (py_list_obj (replicate 21 py_none))) 200
       = ''<list with 21 items>''
   \<and> safe_repr unprintable 200 = ''<K>''
   \<and> safe_repr (set_repr NonStr unprintable) 200 = ''<K>''
   \<and> safe_repr (py_int_obj 7) 200 = ''7''
   \<and> safe_repr huge_len_list 200 = ''[]''"
  using safe_repr_spec [of "py_list_obj (replicate 21 py_none)" 21 200 "Raises RuntimeError"
      "replicate 21 py_none"]
    safe_repr_spec [of unprintable _ 200 _ _ RuntimeError]
    safe_repr_spec [of "set_repr NonStr unprintable" _ 200]
    safe_repr_spec [of "py_int_obj 7" _ 200 _ _ _ "''7''"]
    safe_repr_spec [of huge_len_list _ 200 _ _ _ "''[]''"]
    has_items_py_collection [of "replicate 21 py_none" KList "''list''"
      "items_repr ''['' '']'' (replicate 21 py_none)"]
  by (simp add: is_bulk_container_def sys_maxsize_def py_len_def py_list_obj_def py_collection_sel
      unprintable_def huge_len_list_def set_repr_def py_int_obj_def digit_defs)

subsection \<open>Lazy frames\<close>


lemma map_of_set_if_ok:
  "k' \<noteq> k \<Longrightarrow> map_of (set_if_ok k v r) k' = map_of r k'"
  by (cases v) (auto simp: set_if_ok_def)

lemma lazyframe_schema_record_lazy:
  "lazyframe_schema_record name obj mi mnl = Inr r \<Longrightarrow> map_of r ''lazy'' = Some (JBool True)"
  by (auto simp: lazyframe_schema_record_def Let_def split: if_splits elim!: and_thenE)

lemma inspect_polars_lazyframe_lazy:
  "map_of (inspect_polars_lazyframe name obj mi mnl) ''lazy'' = Some (JBool True)"
  by (auto simp: inspect_polars_lazyframe_def lazyframe_schema_record_lazy split: sum.splits)

lemma lazyframe_schema_failure:
  "py_call_method obj ''collect_schema'' = Inl e \<Longrightarrow>
     inspect_polars_lazyframe name obj mi mnl =
       [(''name'', JStr name), (''type'', JStr ''polars.LazyFrame''), (''lazy'', JBool True)]"
  by (simp add: inspect_polars_lazyframe_def lazyframe_schema_record_def)

lemma family_of_lazyframe:
  "\<not> is_scalar obj \<Longrightarrow> startswith (module_of obj) ''polars'' \<Longrightarrow> type_name obj = ''LazyFrame'' \<Longrightarrow>
     family_of obj = PolarsLazyFrame"
  by (simp add: family_of_def Let_def)

lemma family_of_dataframe:
  "\<not> is_scalar obj \<Longrightarrow> startswith (module_of obj) ''pandas'' \<or> startswith (module_of obj) ''polars'' \<Longrightarrow>
     type_name obj = ''DataFrame'' \<Longrightarrow>
     family_of obj = PandasDataFrame \<or> family_of obj = PolarsDataFrame"
  by (auto simp: family_of_def Let_def)

lemma eager_frame_has_no_lazy:
  assumes "family_of obj = PandasDataFrame \<or> family_of obj = PolarsDataFrame"
    and "inspect_one name obj mi mnl = Inr r"
  shows "map_of r ''lazy'' = None"
proof -
  from inspect_one_keys [OF assms(2)] assms(1) have "''lazy'' \<notin> rkeys r"
    by (auto simp: family_keys_def)
  then show ?thesis by (simp add: map_of_None_rkeys)
qed

text \<open>
  C4. For every polars \<^verbatim>\<open>LazyFrame\<close> (module starting with \<^verbatim>\<open>polars\<close>, type name
  \<^verbatim>\<open>LazyFrame\<close>, not a scalar), \<^verbatim>\<open>inspect_one\<close> returns a record with
  \<^verbatim>\<open>lazy == True\<close>; when \<^verbatim>\<open>collect_schema()\<close> raises, the record is exactly
  \<^verbatim>\<open>{name, type: "polars.LazyFrame", lazy: True}\<close>, without \<^verbatim>\<open>columns\<close>. No record
  returned for an eager pandas or polars \<^verbatim>\<open>DataFrame\<close> has a \<^verbatim>\<open>lazy\<close> key at all.
\<close>

theorem lazyframe_spec:
  "(\<not> is_scalar lf \<and> startswith (module_of lf) ''polars'' \<and> type_name lf = ''LazyFrame'' \<longrightarrow>
      (\<exists>r. inspect_one name lf mi mnl = Inr r \<and> map_of r ''lazy'' = Some (JBool True))
      \<and> (py_call_method lf ''collect_schema'' = Inl e \<longrightarrow>
           inspect_one name lf mi mnl =
             Inr [(''name'', JStr name), (''type'', JStr ''polars.LazyFrame''), (''lazy'', JBool True)]))
   \<and> (\<not> is_scalar df
       \<and> (startswith (module_of df) ''pandas'' \<or> startswith (module_of df) ''polars'')
       \<and> type_name df = ''DataFrame''
       \<and> inspect_one name' df mi' mnl' = Inr r' \<longrightarrow>
         map_of r' ''lazy'' = None)"
proof (intro conjI impI)
  assume lf: "\<not> is_scalar lf \<and> startswith (module_of lf) ''polars'' \<and> type_name lf = ''LazyFrame''"
  then have fam: "family_of lf = PolarsLazyFrame" by (simp add: family_of_lazyframe)
  then have eq: "inspect_one name lf mi mnl = Inr (inspect_polars_lazyframe name lf mi mnl)"
    by (simp add: inspect_one_by_family)
  show "\<exists>r. inspect_one name lf mi mnl = Inr r \<and> map_of r ''lazy'' = Some (JBool True)"
    using eq inspect_polars_lazyframe_lazy by simp
  assume "py_call_method lf ''collect_schema'' = Inl e"
  then show "inspect_one name lf mi mnl =
             Inr [(''name'', JStr name), (''type'', JStr ''polars.LazyFrame''), (''lazy'', JBool True)]"
    using eq by (simp add: lazyframe_schema_failure)
next
  assume df: "\<not> is_scalar df
       \<and> (startswith (module_of df) ''pandas'' \<or> startswith (module_of df) ''polars'')
       \<and> type_name df = ''DataFrame''
       \<and> inspect_one name' df mi' mnl' = Inr r'"
  then have "family_of df = PandasDataFrame \<or> family_of df = PolarsDataFrame"
    using family_of_dataframe by blast
  with df show "map_of r' ''lazy'' = None"
    using eager_frame_has_no_lazy by blast
qed

theorem lazyframe_spec_witness:
  "inspect_one ''lf'' broken_lazyframe 20 (Some 60) =
     Inr [(''name'', JStr ''lf''), (''type'', JStr ''polars.LazyFrame''), (''lazy'', JBool True)]
   \<and> inspect_one ''lf'' small_lazyframe 20 (Some 60) =
     Inr [(''name'', JStr ''lf''), (''type'', JStr ''polars.LazyFrame''),
          (''columns'',
           JList [JRec [(''name'', JStr ''id''), (''dtype'', JStr ''Int64'')],
                  JRec [(''name'', JStr ''score''), (''dtype'', JStr ''Float64'')]]),
          (''lazy'', JBool True)]
   \<and> inspect_one ''df'' small_frame 20 (Some 60) =
     Inr [(''name'', JStr ''df''), (''type'', JStr ''DataFrame''),
          (''shape'', JList [JRaw (py_int_obj 3), JRaw (py_int_obj 2)]),
          (''columns'',
           JList [JRec [(''name'', JStr ''id''), (''dtype'', JStr ''int64'')],
                  JRec [(''name'', JStr ''score''), (''dtype'', JStr ''float64'')]]),
          (''index_dtype'', JStr ''int64''), (''memory_bytes'', JInt 180)]"
  using lazyframe_spec [where lf = broken_lazyframe and name = "''lf''" and mi = 20
      and mnl = "Some 60" and e = RuntimeError and df = small_frame and name' = "''df''"
      and mi' = 20 and mnl' = "Some 60"]
  by (simp add: dispatch_defs inspect_polars_lazyframe_def lazyframe_schema_record_def
      lazy_column_entry_def inspect_pandas_dataframe_def frame_fields_def column_entry_def
      column_dtype_def total_columns_def add_index_info_def frame_memory_bytes_def
      py_defs obj_defs frame_defs example_defs Let_def)

subsection \<open>Dispatch after the library steps\<close>






lemma main_no_library_match: "tmodule obj = ''__main__'' \<Longrightarrow> \<not> library_match obj"
  by (simp add: library_match_def module_of_def startswith_def)




subsection \<open>Mappings\<close>






subsection \<open>Negative lengths\<close>








subsection \<open>Lists, tuples and sets\<close>












subsection \<open>Listing a namespace\<close>

lemma startswith_Nil [simp]: "startswith s []"
  by (simp add: startswith_def)

lemma contains_Nil [simp]: "contains s []"
  by (cases s) simp_all

lemma startswith_iff: "startswith s p \<longleftrightarrow> (\<exists>b. s = p @ b)"
  unfolding startswith_def
  by (metis append_eq_conv_conj append_take_drop_id)

lemma contains_iff: "contains s p \<longleftrightarrow> (\<exists>a b. s = a @ p @ b)"
proof (induction s)
  case Nil
  then show ?case by auto
next
  case (Cons c cs)
  show ?case
  proof
    assume "contains (c # cs) p"
    then consider "startswith (c # cs) p" | "contains cs p" by auto
    then show "\<exists>a b. c # cs = a @ p @ b"
    proof cases
      case 1
      then obtain b where "c # cs = p @ b" by (auto simp: startswith_iff)
      then have "c # cs = [] @ p @ b" by simp
      then show ?thesis by blast
    next
      case 2
      with Cons.IH obtain a b where "cs = a @ p @ b" by auto
      then have "c # cs = (c # a) @ p @ b" by simp
      then show ?thesis by blast
    qed
  next
    assume "\<exists>a b. c # cs = a @ p @ b"
    then obtain a b where ab: "c # cs = a @ p @ b" by auto
    show "contains (c # cs) p"
    proof (cases a)
      case Nil
      with ab have "startswith (c # cs) p" by (auto simp: startswith_iff)
      then show ?thesis by simp
    next
      case (Cons x a')
      with ab have "cs = a' @ p @ b" by simp
      with Cons.IH have "contains cs p" by blast
      then show ?thesis by simp
    qed
  qed
qed

text \<open>
  The loop keeps the entries that qualify, in the order of the namespace; the slice
  keeps only entries of the loop, and from \<^verbatim>\<open>max_variables = 0\<close> on it keeps the first
  \<^verbatim>\<open>max_variables\<close> of them.
\<close>

lemma select_entries_filter:
  "select_entries filter_name include_private ns = filter (qualifies filter_name include_private) ns"
  by (induction ns) (auto simp: qualifies_def py_lower_def split: option.splits)

lemma listed_entries_within_cap:
  assumes "0 \<le> max_variables"
  shows "listed_entries ns max_variables filter_name include_private
           = take (nat max_variables) (filter (qualifies filter_name include_private) ns)"
    and "int (length (listed_entries ns max_variables filter_name include_private)) \<le> max_variables"
  using assms by (simp_all add: listed_entries_def py_slice_to_def select_entries_filter)

lemma set_py_slice_to: "set (py_slice_to s k) \<subseteq> set s"
  by (auto simp: py_slice_to_def dest: in_set_takeD)

lemma listed_entries_qualify:
  "e \<in> set (listed_entries ns max_variables filter_name include_private) \<Longrightarrow>
     e \<in> set ns \<and> qualifies filter_name include_private e"
  using set_py_slice_to [of "select_entries filter_name include_private ns" max_variables]
  by (auto simp: listed_entries_def select_entries_filter)

lemma basic_listing:
  "detail \<noteq> ''schema'' \<Longrightarrow> detail \<noteq> ''full'' \<Longrightarrow>
     list_user_variables format_summary ns detail max_variables max_items max_name_length
         filter_name include_private
       = Inr (Records (map basic_entry
                (listed_entries ns max_variables filter_name include_private)))"
  by (simp add: list_user_variables_def)


end
